theory Spec2Isabelle
  imports Main "HOL-Library.AList" "HOL-Library.Sublist"
begin

section \<open>Python values, exceptions and the object store\<close>

text \<open>
  Channel properties and worker configurations are JSON-like values. A dictionary is an
  association list with distinct keys; strings are text as \<^verbatim>\<open>json.loads\<close> returns it.
\<close>

datatype jv =
    JNone
  | JBool bool
  | JInt int
  | JStr string
  | JList "jv list"
  | JDict "(string \<times> jv) list"

type_synonym pyprops = "(string \<times> jv) list"

text \<open>
  Exceptions of \<^verbatim>\<open>junebug/channel.py\<close> and of the Python and Twisted operations it
  calls. A raise is the value \<open>Inl e\<close>; the state reached when the exception leaves the
  function is returned beside it. \<open>InvalidChannelType t ks\<close> stands for the message
  \<^verbatim>\<open>'Invalid channel type %r, must be one of: %s' % (t, ks)\<close>: it keeps the value \<open>t\<close>
  printed by \<^verbatim>\<open>%r\<close> and the text \<open>ks\<close> printed by \<^verbatim>\<open>%s\<close>.
\<close>

datatype error =
    KeyError string
  | AttributeError
  | TypeError
  | ValueError
  | RuntimeError string
  | UnicodeEncodeError
  | ChannelNotFound
  | InvalidChannelType jv string

text \<open>
  Messages are dictionaries that the translator functions share and mutate, so they live
  in a store: a dictionary value is a reference \<open>PRef a\<close> to the cell \<open>a\<close>; the other
  values are immutable. \<open>nxt\<close> is the next unused address.
\<close>

type_synonym addr = nat

datatype pyval =
    PNone
  | PBool bool
  | PInt int
  | PStr string
  | PList "pyval list"
  | PRef addr

type_synonym pydict = "string \<rightharpoonup> pyval"

record heap =
  cells :: "addr \<Rightarrow> pydict"
  nxt :: addr

text \<open>\<^verbatim>\<open>{}\<close>: a new empty dictionary.\<close>

definition new_dict :: "heap \<Rightarrow> addr \<times> heap" where
  "new_dict h = (nxt h, h\<lparr>cells := (cells h)(nxt h := Map.empty), nxt := Suc (nxt h)\<rparr>)"

text \<open>\<^verbatim>\<open>d.get(k)\<close>: the value, or \<^verbatim>\<open>None\<close> when the key is missing.\<close>

definition dict_get :: "pydict \<Rightarrow> string \<Rightarrow> pyval" where
  "dict_get d k = (case d k of None \<Rightarrow> PNone | Some v \<Rightarrow> v)"

text \<open>\<^verbatim>\<open>d[k] = v\<close> on the dictionary at address \<open>a\<close>.\<close>

definition setitem :: "addr \<Rightarrow> string \<Rightarrow> pyval \<Rightarrow> heap \<Rightarrow> heap" where
  "setitem a k v h = h\<lparr>cells := (cells h)(a := (cells h a)(k \<mapsto> v))\<rparr>"

text \<open>The removal done by \<^verbatim>\<open>d.pop(k)\<close> on the dictionary at address \<open>a\<close>.\<close>

definition delitem :: "addr \<Rightarrow> string \<Rightarrow> heap \<Rightarrow> heap" where
  "delitem a k h = h\<lparr>cells := (cells h)(a := (cells h a)(k := None))\<rparr>"

section \<open>The message translator\<close>

text \<open>
  \<^verbatim>\<open>if channel_data.get(k) is not None: ret[k] = channel_data.pop(k)\<close>, for the
  dictionary \<open>cd\<close> that \<^verbatim>\<open>channel_data\<close> refers to.
\<close>

definition pop_into :: "addr \<Rightarrow> addr \<Rightarrow> string \<Rightarrow> heap \<Rightarrow> heap" where
  "pop_into ret cd k h =
     (if dict_get (cells h cd) k \<noteq> PNone
      then setitem ret k (dict_get (cells h cd) k) (delitem cd k h)
      else h)"

text \<open>
  \<^verbatim>\<open>Channel.message_from_api(id, msg)\<close>. \<open>msg\<close> is the address of the external
  message. \<^verbatim>\<open>msg['from']\<close> and \<^verbatim>\<open>msg['content']\<close> raise \<^verbatim>\<open>KeyError\<close> on a missing
  key; \<^verbatim>\<open>channel_data.get\<close> raises \<^verbatim>\<open>AttributeError\<close> when \<^verbatim>\<open>channel_data\<close> is not a
  dictionary. The default \<^verbatim>\<open>{}\<close> of \<^verbatim>\<open>msg.get('channel_data', {})\<close> is built before
  the lookup, as Python evaluates arguments first.
\<close>

definition message_from_api :: "string \<Rightarrow> addr \<Rightarrow> heap \<Rightarrow> (error + addr) \<times> heap" where
  "message_from_api chid msg h0 =
     (let (ret, h1) = new_dict h0;
          h2 = setitem ret ''to_addr'' (dict_get (cells h1 msg) ''to'') h1
      in (case cells h2 msg ''from'' of
            None \<Rightarrow> (Inl (KeyError ''from''), h2)
          | Some f \<Rightarrow>
        (let h3 = setitem ret ''from_addr'' f h2
         in (case cells h3 msg ''content'' of
               None \<Rightarrow> (Inl (KeyError ''content''), h3)
             | Some c \<Rightarrow>
           (let h4 = setitem ret ''content'' c h3;
                h5 = setitem ret ''transport_name'' (PStr chid) h4;
                (dflt, h6) = new_dict h5;
                channel_data = (case cells h6 msg ''channel_data'' of
                                  None \<Rightarrow> PRef dflt | Some v \<Rightarrow> v)
            in (case channel_data of
                  PRef cd \<Rightarrow>
                    (let h7 = pop_into ret cd ''continue_session'' h6;
                         h8 = pop_into ret cd ''session_event'' h7;
                         h9 = setitem ret ''helper_metadata'' (PRef cd) h8
                     in (Inr ret, h9))
                | _ \<Rightarrow> (Inl AttributeError, h6)))))))"

text \<open>
  \<^verbatim>\<open>ret[k_out] = msg[k_in]\<close>, raising \<^verbatim>\<open>KeyError\<close> when \<open>k_in\<close> is missing; the
  continuation \<open>rest\<close> runs on the updated store.
\<close>

definition copy_item ::
  "addr \<Rightarrow> string \<Rightarrow> addr \<Rightarrow> string \<Rightarrow> heap \<Rightarrow> (heap \<Rightarrow> (error + 'a) \<times> heap)
     \<Rightarrow> (error + 'a) \<times> heap" where
  "copy_item ret k_out msg k_in h rest =
     (case cells h msg k_in of
        None \<Rightarrow> (Inl (KeyError k_in), h)
      | Some v \<Rightarrow> rest (setitem ret k_out v h))"

text \<open>
  \<^verbatim>\<open>if msg.get(k) is not None: ret['channel_data'][k] = msg[k]\<close>. The item assignment
  raises \<^verbatim>\<open>TypeError\<close> when \<^verbatim>\<open>ret['channel_data']\<close> is not a dictionary.
\<close>

definition fold_into ::
  "addr \<Rightarrow> addr \<Rightarrow> string \<Rightarrow> heap \<Rightarrow> (heap \<Rightarrow> (error + 'a) \<times> heap)
     \<Rightarrow> (error + 'a) \<times> heap" where
  "fold_into ret msg k h rest =
     (if dict_get (cells h msg) k \<noteq> PNone
      then (case dict_get (cells h ret) ''channel_data'' of
              PRef cd \<Rightarrow> rest (setitem cd k (dict_get (cells h msg) k) h)
            | _ \<Rightarrow> (Inl TypeError, h))
      else rest h)"

text \<open>\<^verbatim>\<open>Channel.api_from_message(msg)\<close>; \<open>msg\<close> is the address of the internal message.\<close>

definition api_from_message :: "addr \<Rightarrow> heap \<Rightarrow> (error + addr) \<times> heap" where
  "api_from_message msg h0 =
     (let (ret, h1) = new_dict h0 in
      copy_item ret ''to'' msg ''to_addr'' h1 (\<lambda>h.
      copy_item ret ''from'' msg ''from_addr'' h (\<lambda>h.
      copy_item ret ''message_id'' msg ''message_id'' h (\<lambda>h.
      copy_item ret ''channel_id'' msg ''transport_name'' h (\<lambda>h.
      copy_item ret ''timestamp'' msg ''timestamp'' h (\<lambda>h.
      copy_item ret ''reply_to'' msg ''in_reply_to'' h (\<lambda>h.
      copy_item ret ''content'' msg ''content'' h (\<lambda>h.
      copy_item ret ''channel_data'' msg ''helper_metadata'' h (\<lambda>h.
      fold_into ret msg ''continue_session'' h (\<lambda>h.
      fold_into ret msg ''session_event'' h (\<lambda>h.
      (Inr ret, h))))))))))))"


section \<open>Workers and their parent services\<close>

text \<open>
  The workers are Twisted services (\<^verbatim>\<open>twisted.application.service\<close>), made by vumi's
  \<^verbatim>\<open>WorkerCreator\<close>; neither is part of \<^verbatim>\<open>channel.py\<close>. They are modelled by what
  \<^verbatim>\<open>Service\<close> and \<^verbatim>\<open>MultiService\<close> do to names and parents: a worker has a name and a
  parent, a parent service has its list of children and its dictionary of named children.
  Starting and stopping the process behind a worker is not modelled. A worker handle is an
  index into \<open>workers\<close>.
\<close>

type_synonym wid = nat
type_synonym sid = nat

record worker =
  wname :: "string option"
  wparent :: "sid option"
  wcls :: string
  wconfig :: jv
  woptions :: pyprops

record service =
  namedServices :: "string \<rightharpoonup> wid"
  services :: "wid list"

text \<open>
  The world outside the channel object: the redis strings, keyed by sub-manager and key,
  the redis sets, the worker objects and the parent services.
\<close>

record world =
  kv :: "string \<times> string \<rightharpoonup> string"
  sets :: "string \<Rightarrow> string set"
  workers :: "worker list"
  svcs :: "sid \<Rightarrow> service"

text \<open>
  What the module takes from its libraries: \<^verbatim>\<open>json.dumps\<close>, \<^verbatim>\<open>json.loads\<close> and
  \<^verbatim>\<open>VumiOptions.default_vumi_options\<close>.
\<close>

record ext =
  json_dumps :: "pyprops \<Rightarrow> string"
  json_loads :: "string \<Rightarrow> pyprops"
  default_vumi_options :: pyprops

definition upd_worker :: "wid \<Rightarrow> (worker \<Rightarrow> worker) \<Rightarrow> world \<Rightarrow> world" where
  "upd_worker w f W = W\<lparr>workers := (workers W)[w := f (workers W ! w)]\<rparr>"

definition upd_service :: "sid \<Rightarrow> (service \<Rightarrow> service) \<Rightarrow> world \<Rightarrow> world" where
  "upd_service s f W = W\<lparr>svcs := (svcs W)(s := f (svcs W s))\<rparr>"

text \<open>
  \<^verbatim>\<open>WorkerCreator(options).create_worker(cls_name, config)\<close>: a new worker object, with
  no name and no parent.
\<close>

definition create_worker :: "pyprops \<Rightarrow> string \<Rightarrow> jv \<Rightarrow> world \<Rightarrow> wid \<times> world" where
  "create_worker opts cls_name config W =
     (length (workers W),
      W\<lparr>workers := workers W @
         [\<lparr>wname = None, wparent = None, wcls = cls_name, wconfig = config, woptions = opts\<rparr>]\<rparr>)"

text \<open>\<^verbatim>\<open>Service.setName\<close>: refused once the service has a parent.\<close>

definition setName :: "wid \<Rightarrow> string \<Rightarrow> world \<Rightarrow> (error + unit) \<times> world" where
  "setName w name W =
     (if wparent (workers W ! w) \<noteq> None
      then (Inl (RuntimeError ''cannot change name when parent exists''), W)
      else (Inr (), upd_worker w (\<lambda>x. x\<lparr>wname := Some name\<rparr>) W))"

text \<open>
  \<^verbatim>\<open>MultiService.addService\<close>: a named service is entered in \<^verbatim>\<open>namedServices\<close>, and
  refused if the name is taken, with the message
  \<^verbatim>\<open>"cannot have two services with same name '%s'" % service.name\<close>; every service is
  appended to \<^verbatim>\<open>services\<close>.
\<close>

definition addService :: "sid \<Rightarrow> wid \<Rightarrow> world \<Rightarrow> (error + unit) \<times> world" where
  "addService s w W =
     (case wname (workers W ! w) of
        None \<Rightarrow> (Inr (), upd_service s (\<lambda>x. x\<lparr>services := services x @ [w]\<rparr>) W)
      | Some n \<Rightarrow>
          if namedServices (svcs W s) n \<noteq> None
          then (Inl (RuntimeError (''cannot have two services with same name '' @ [CHR 0x27] @ n @ [CHR 0x27])), W)
          else (Inr (), upd_service s
                  (\<lambda>x. x\<lparr>namedServices := (namedServices x)(n \<mapsto> w),
                         services := services x @ [w]\<rparr>) W))"

text \<open>
  \<^verbatim>\<open>MultiService.removeService\<close>: \<^verbatim>\<open>if service.name: del self.namedServices[service.name]\<close>
  (skipped for the empty name, \<^verbatim>\<open>KeyError\<close> if the name is not entered), then
  \<^verbatim>\<open>self.services.remove(service)\<close> (\<^verbatim>\<open>ValueError\<close> if it is not a child).
\<close>

definition removeService :: "sid \<Rightarrow> wid \<Rightarrow> world \<Rightarrow> (error + unit) \<times> world" where
  "removeService s w W =
     (let r1 = (case wname (workers W ! w) of
                  None \<Rightarrow> (Inr (), W)
                | Some n \<Rightarrow>
                    if n = [] then (Inr (), W)
                    else if namedServices (svcs W s) n = None then (Inl (KeyError n), W)
                    else (Inr (), upd_service s
                            (\<lambda>x. x\<lparr>namedServices := (namedServices x)(n := None)\<rparr>) W))
      in case r1 of
           (Inl e, W1) \<Rightarrow> (Inl e, W1)
         | (Inr _, W1) \<Rightarrow>
             if w \<in> set (services (svcs W1 s))
             then (Inr (), upd_service s (\<lambda>x. x\<lparr>services := remove1 w (services x)\<rparr>) W1)
             else (Inl ValueError, W1))"

text \<open>
  \<^verbatim>\<open>Service.disownServiceParent\<close>: \<^verbatim>\<open>self.parent.removeService(self)\<close>, then
  \<^verbatim>\<open>self.parent = None\<close>. Without a parent the attribute lookup on \<^verbatim>\<open>None\<close> fails.
\<close>

definition disownServiceParent :: "wid \<Rightarrow> world \<Rightarrow> (error + unit) \<times> world" where
  "disownServiceParent w W =
     (case wparent (workers W ! w) of
        None \<Rightarrow> (Inl AttributeError, W)
      | Some s \<Rightarrow>
          (case removeService s w W of
             (Inl e, W1) \<Rightarrow> (Inl e, W1)
           | (Inr _, W1) \<Rightarrow> (Inr (), upd_worker w (\<lambda>x. x\<lparr>wparent := None\<rparr>) W1)))"

text \<open>
  \<^verbatim>\<open>Service.setServiceParent\<close>: a service that has a parent disowns it first; then
  \<^verbatim>\<open>self.parent = parent\<close> and \<^verbatim>\<open>self.parent.addService(self)\<close>. The parent is the
  caller's value, which may be \<^verbatim>\<open>None\<close>.
\<close>

definition setServiceParent :: "wid \<Rightarrow> sid option \<Rightarrow> world \<Rightarrow> (error + unit) \<times> world" where
  "setServiceParent w parent W =
     (let r1 = (if wparent (workers W ! w) \<noteq> None then disownServiceParent w W else (Inr (), W))
      in case r1 of
           (Inl e, W1) \<Rightarrow> (Inl e, W1)
         | (Inr _, W1) \<Rightarrow>
             (let W2 = upd_worker w (\<lambda>x. x\<lparr>wparent := parent\<rparr>) W1
              in case parent of
                   None \<Rightarrow> (Inl AttributeError, W2)
                 | Some s \<Rightarrow> addService s w W2))"

text \<open>
  \<^verbatim>\<open>MultiService.getServiceNamed\<close>: \<^verbatim>\<open>self.namedServices[name]\<close>, a \<^verbatim>\<open>KeyError\<close> when
  the parent has no child of that name.
\<close>

definition getServiceNamed :: "sid \<Rightarrow> string \<Rightarrow> world \<Rightarrow> error + wid" where
  "getServiceNamed s name W =
     (case namedServices (svcs W s) name of None \<Rightarrow> Inl (KeyError name) | Some w \<Rightarrow> Inr w)"

section \<open>The channel\<close>

text \<open>
  The module's table \<^verbatim>\<open>transports\<close>, its keys in the order of the source text. (The
  order in which Python lists the keys of a dictionary is not fixed by the source; what is
  proved about the list of keys does not depend on it.)
\<close>

definition transports :: "(string \<times> string) list" where
  "transports =
     [(''telnet'', ''vumi.transports.telnet.TelnetServerTransport''),
      (''xmpp'', ''vumi.transports.xmpp.XMPPTransport'')]"

definition allowed_message_fields :: "string list" where
  "allowed_message_fields =
     [''transport_name'', ''timestamp'', ''in_reply_to'', ''to_addr'', ''from_addr'',
      ''content'', ''session_event'', ''helper_metadata'', ''message_id'']"

text \<open>
  The fields of a \<^verbatim>\<open>Channel\<close> object. \<open>cid\<close> is \<^verbatim>\<open>self.id\<close>; \<^verbatim>\<open>self.redis\<close> is the
  store of the world.
\<close>

record channel =
  properties :: pyprops
  cid :: string
  options :: pyprops
  transport_worker :: "wid option"
  application_worker :: "wid option"

text \<open>
  The outcome of a method: the returned value or the exception, with the channel object
  and the world as the method left them.
\<close>

type_synonym 'a outcome = "(error + 'a) \<times> channel \<times> world"

text \<open>Sequencing: an exception of the first step ends the sequence.\<close>

definition and_then ::
  "'a outcome \<Rightarrow> ('a \<Rightarrow> channel \<Rightarrow> world \<Rightarrow> 'b outcome) \<Rightarrow> 'b outcome" where
  "and_then r f =
     (case r of (Inl e, ch, W) \<Rightarrow> (Inl e, ch, W) | (Inr x, ch, W) \<Rightarrow> f x ch W)"

text \<open>\<^verbatim>\<open>d.get(k)\<close> on a dictionary value.\<close>

definition jget :: "pyprops \<Rightarrow> string \<Rightarrow> jv" where
  "jget d k = (case map_of d k of None \<Rightarrow> JNone | Some v \<Rightarrow> v)"

text \<open>
  \<^verbatim>\<open>Channel.__init__\<close>. The identifier \<^verbatim>\<open>str(uuid.uuid4())\<close> drawn when no id is given
  is an input here: the caller passes the id the channel gets.
\<close>

definition channel_init :: "ext \<Rightarrow> pyprops \<Rightarrow> pyprops \<Rightarrow> string \<Rightarrow> channel" where
  "channel_init X amqp_config props i =
     \<lparr>properties = props, cid = i,
      options = AList.merge (default_vumi_options X) amqp_config,
      transport_worker = None, application_worker = None\<rparr>"

text \<open>\<^verbatim>\<open>', '.join(xs)\<close>.\<close>

fun join_comma :: "string list \<Rightarrow> string" where
  "join_comma [] = []"
| "join_comma [x] = x"
| "join_comma (x # y # ys) = x @ '', '' @ join_comma (y # ys)"

text \<open>
  \<^verbatim>\<open>transports.get(t)\<close>: a list or a dictionary is unhashable and makes the lookup
  raise \<^verbatim>\<open>TypeError\<close>; of the other values only a string can be a key of the table.
\<close>

definition transports_get :: "jv \<Rightarrow> error + string option" where
  "transports_get t =
     (case t of
        JList _ \<Rightarrow> Inl TypeError
      | JDict _ \<Rightarrow> Inl TypeError
      | JStr s \<Rightarrow> Inr (map_of transports s)
      | _ \<Rightarrow> Inr None)"

text \<open>The property \<^verbatim>\<open>_transport_cls_name\<close>.\<close>

definition transport_cls_name :: "channel \<Rightarrow> error + string" where
  "transport_cls_name ch =
     (case transports_get (jget (properties ch) ''type'') of
        Inl e \<Rightarrow> Inl e
      | Inr None \<Rightarrow>
          Inl (InvalidChannelType (jget (properties ch) ''type'') (join_comma (map fst transports)))
      | Inr (Some cls_name) \<Rightarrow> Inr cls_name)"

definition application_cls_name :: string where
  "application_cls_name = ''junebug.workers.MessageForwardingWorker''"

definition application_id :: "channel \<Rightarrow> string" where
  "application_id ch = ''application:'' @ cid ch"

text \<open>\<^verbatim>\<open>str(data)\<close> on text: only ASCII text can be encoded.\<close>

definition py_str :: "string \<Rightarrow> error + string" where
  "py_str s = (if list_all (\<lambda>c. (of_char c :: nat) < 128) s then Inr s else Inl UnicodeEncodeError)"

text \<open>
  \<^verbatim>\<open>_convert_unicode\<close>. A dictionary is rebuilt from its items, each item a pair that
  is converted component by component; a list is rebuilt from its converted elements; any
  other value is returned as it is.
\<close>

fun convert_unicode :: "jv \<Rightarrow> error + jv"
  and convert_items :: "(string \<times> jv) list \<Rightarrow> error + (string \<times> jv) list"
  and convert_seq :: "jv list \<Rightarrow> error + jv list" where
  "convert_unicode (JStr s) = (case py_str s of Inl e \<Rightarrow> Inl e | Inr s' \<Rightarrow> Inr (JStr s'))"
| "convert_unicode (JDict kvs) =
     (case convert_items kvs of Inl e \<Rightarrow> Inl e | Inr kvs' \<Rightarrow> Inr (JDict kvs'))"
| "convert_unicode (JList xs) =
     (case convert_seq xs of Inl e \<Rightarrow> Inl e | Inr xs' \<Rightarrow> Inr (JList xs'))"
| "convert_unicode JNone = Inr JNone"
| "convert_unicode (JBool b) = Inr (JBool b)"
| "convert_unicode (JInt i) = Inr (JInt i)"
| "convert_items [] = Inr []"
| "convert_items ((k, v) # kvs) =
     (case py_str k of Inl e \<Rightarrow> Inl e | Inr k' \<Rightarrow>
      (case convert_unicode v of Inl e \<Rightarrow> Inl e | Inr v' \<Rightarrow>
       (case convert_items kvs of Inl e \<Rightarrow> Inl e | Inr r \<Rightarrow> Inr ((k', v') # r))))"
| "convert_seq [] = Inr []"
| "convert_seq (x # xs) =
     (case convert_unicode x of Inl e \<Rightarrow> Inl e | Inr x' \<Rightarrow>
      (case convert_seq xs of Inl e \<Rightarrow> Inl e | Inr r \<Rightarrow> Inr (x' # r)))"

text \<open>
  The property \<^verbatim>\<open>_transport_config\<close>. \<^verbatim>\<open>config['transport_name'] = self.id\<close> raises
  \<^verbatim>\<open>TypeError\<close> unless the converted \<^verbatim>\<open>config\<close> is a dictionary.
\<close>

definition transport_config :: "channel \<Rightarrow> error + jv" where
  "transport_config ch =
     (case map_of (properties ch) ''config'' of
        None \<Rightarrow> Inl (KeyError ''config'')
      | Some config \<Rightarrow>
          (case convert_unicode config of
             Inl e \<Rightarrow> Inl e
           | Inr (JDict d) \<Rightarrow> Inr (JDict (AList.update ''transport_name'' (JStr (cid ch)) d))
           | Inr _ \<Rightarrow> Inl TypeError))"

text \<open>The property \<^verbatim>\<open>_application_config\<close>.\<close>

definition application_config :: "channel \<Rightarrow> error + jv" where
  "application_config ch =
     (case map_of (properties ch) ''mo_url'' of
        None \<Rightarrow> Inl (KeyError ''mo_url'')
      | Some url \<Rightarrow>
          Inr (JDict [(''transport_name'', JStr (cid ch)), (''mo_message_url'', url)]))"

text \<open>
  \<^verbatim>\<open>_create_transport\<close> and \<^verbatim>\<open>_create_application\<close>: the class name is evaluated
  before the configuration, and both before the worker is made.
\<close>

definition create_transport :: "channel \<Rightarrow> world \<Rightarrow> wid outcome" where
  "create_transport ch W =
     (case transport_cls_name ch of
        Inl e \<Rightarrow> (Inl e, ch, W)
      | Inr cls_name \<Rightarrow>
          (case transport_config ch of
             Inl e \<Rightarrow> (Inl e, ch, W)
           | Inr config \<Rightarrow>
               (let (w, W1) = create_worker (options ch) cls_name config W
                in (Inr w, ch, W1))))"

definition create_application :: "channel \<Rightarrow> world \<Rightarrow> wid outcome" where
  "create_application ch W =
     (case application_config ch of
        Inl e \<Rightarrow> (Inl e, ch, W)
      | Inr config \<Rightarrow>
          (let (w, W1) = create_worker (options ch) application_cls_name config W
           in (Inr w, ch, W1)))"

text \<open>A Twisted call made from a method: the channel object is not touched.\<close>

definition lift_world :: "(error + 'a) \<times> world \<Rightarrow> channel \<Rightarrow> 'a outcome" where
  "lift_world r ch = (fst r, ch, snd r)"

text \<open>\<^verbatim>\<open>_start_transport(service, transport_worker)\<close>.\<close>

definition start_transport :: "sid option \<Rightarrow> wid option \<Rightarrow> channel \<Rightarrow> world \<Rightarrow> unit outcome" where
  "start_transport service transport_worker_arg ch W =
     and_then (case transport_worker_arg of
                 None \<Rightarrow> create_transport ch W
               | Some w \<Rightarrow> (Inr w, ch, W)) (\<lambda>w ch W.
     and_then (lift_world (setName w (cid ch) W) ch) (\<lambda>_ ch W.
     and_then (lift_world (setServiceParent w service W) ch) (\<lambda>_ ch W.
     (Inr (), ch\<lparr>transport_worker := Some w\<rparr>, W))))"

text \<open>\<^verbatim>\<open>_start_application(service)\<close>.\<close>

definition start_application :: "sid option \<Rightarrow> channel \<Rightarrow> world \<Rightarrow> unit outcome" where
  "start_application service ch W =
     and_then (create_application ch W) (\<lambda>w ch W.
     and_then (lift_world (setName w (application_id ch) W) ch) (\<lambda>_ ch W.
     and_then (lift_world (setServiceParent w service W) ch) (\<lambda>_ ch W.
     (Inr (), ch\<lparr>application_worker := Some w\<rparr>, W))))"

text \<open>\<^verbatim>\<open>start(service, transport_worker=None)\<close>.\<close>

definition start :: "sid option \<Rightarrow> wid option \<Rightarrow> channel \<Rightarrow> world \<Rightarrow> unit outcome" where
  "start service transport_worker_arg ch W =
     and_then (start_transport service transport_worker_arg ch W) (\<lambda>_ ch W.
     start_application service ch W)"

text \<open>\<^verbatim>\<open>_stop_transport\<close> and \<^verbatim>\<open>_stop_application\<close>.\<close>

definition stop_transport :: "channel \<Rightarrow> world \<Rightarrow> unit outcome" where
  "stop_transport ch W =
     (case transport_worker ch of
        None \<Rightarrow> (Inr (), ch, W)
      | Some w \<Rightarrow>
          and_then (lift_world (disownServiceParent w W) ch) (\<lambda>_ ch W.
          (Inr (), ch\<lparr>transport_worker := None\<rparr>, W)))"

definition stop_application :: "channel \<Rightarrow> world \<Rightarrow> unit outcome" where
  "stop_application ch W =
     (case application_worker ch of
        None \<Rightarrow> (Inr (), ch, W)
      | Some w \<Rightarrow>
          and_then (lift_world (disownServiceParent w W) ch) (\<lambda>_ ch W.
          (Inr (), ch\<lparr>application_worker := None\<rparr>, W)))"

text \<open>\<^verbatim>\<open>stop()\<close>.\<close>

definition stop :: "channel \<Rightarrow> world \<Rightarrow> unit outcome" where
  "stop ch W = and_then (stop_application ch W) (\<lambda>_ ch W. stop_transport ch W)"

text \<open>
  \<^verbatim>\<open>save()\<close>: the serialised properties are set under the key \<^verbatim>\<open>properties\<close> of the
  channel's sub-manager, and the id is added to the set \<^verbatim>\<open>channels\<close>.
\<close>

definition save :: "ext \<Rightarrow> channel \<Rightarrow> world \<Rightarrow> unit outcome" where
  "save X ch W =
     (let props = json_dumps X (properties ch);
          W1 = W\<lparr>kv := (kv W)((cid ch, ''properties'') \<mapsto> props)\<rparr>;
          W2 = W1\<lparr>sets := (sets W1)(''channels'' := insert (cid ch) (sets W1 ''channels''))\<rparr>
      in (Inr (), ch, W2))"

text \<open>\<^verbatim>\<open>status()\<close>: a copy of the properties with \<^verbatim>\<open>id\<close> and an empty \<^verbatim>\<open>status\<close>.\<close>

definition status :: "channel \<Rightarrow> pyprops" where
  "status ch =
     AList.update ''status'' (JDict []) (AList.update ''id'' (JStr (cid ch)) (properties ch))"

text \<open>
  \<^verbatim>\<open>update(properties)\<close>. \<^verbatim>\<open>self.transport_worker.parent\<close> raises
  \<^verbatim>\<open>AttributeError\<close> when the handle is \<^verbatim>\<open>None\<close>.
\<close>

definition update_channel :: "ext \<Rightarrow> pyprops \<Rightarrow> channel \<Rightarrow> world \<Rightarrow> pyprops outcome" where
  "update_channel X props ch W =
     and_then (save X (ch\<lparr>properties := AList.merge (properties ch) props\<rparr>) W) (\<lambda>_ ch W.
     and_then (if jget props ''config'' \<noteq> JNone
               then (case transport_worker ch of
                       None \<Rightarrow> (Inl AttributeError, ch, W)
                     | Some tw \<Rightarrow>
                         (let service = wparent (workers W ! tw)
                          in and_then (stop ch W) (\<lambda>_ ch W. start service None ch W)))
               else (Inr (), ch, W)) (\<lambda>_ ch W.
     (Inr (status ch), ch, W)))"

text \<open>\<^verbatim>\<open>delete()\<close>.\<close>

definition delete_channel :: "channel \<Rightarrow> world \<Rightarrow> unit outcome" where
  "delete_channel ch W = (Inr (), ch, W\<lparr>kv := (kv W)((cid ch, ''properties'') := None)\<rparr>)"

text \<open>\<^verbatim>\<open>_restore(service)\<close>.\<close>

definition restore :: "sid \<Rightarrow> channel \<Rightarrow> world \<Rightarrow> unit outcome" where
  "restore service ch W =
     (case getServiceNamed service (cid ch) W of
        Inl e \<Rightarrow> (Inl e, ch, W)
      | Inr tw \<Rightarrow>
          (let ch1 = ch\<lparr>transport_worker := Some tw\<rparr>
           in case getServiceNamed service (application_id ch1) W of
                Inl e \<Rightarrow> (Inl e, ch1, W)
              | Inr aw \<Rightarrow> (Inr (), ch1\<lparr>application_worker := Some aw\<rparr>, W)))"

text \<open>\<^verbatim>\<open>from_id(redis, amqp_config, id, parent)\<close>.\<close>

definition from_id :: "ext \<Rightarrow> pyprops \<Rightarrow> string \<Rightarrow> sid \<Rightarrow> world \<Rightarrow> (error + channel) \<times> world" where
  "from_id X amqp_config i parent W =
     (case kv W (i, ''properties'') of
        None \<Rightarrow> (Inl ChannelNotFound, W)
      | Some props \<Rightarrow>
          (let obj = channel_init X amqp_config (json_loads X props) i
           in case restore parent obj W of
                (Inl e, obj1, W1) \<Rightarrow> (Inl e, W1)
              | (Inr _, obj1, W1) \<Rightarrow> (Inr obj1, W1)))"

text \<open>\<^verbatim>\<open>get_all(redis)\<close>.\<close>

definition get_all :: "world \<Rightarrow> string set" where
  "get_all W = sets W ''channels''"

text \<open>
  The internal message \<open>im\<close> with the entries \<^verbatim>\<open>message_id\<close>, \<^verbatim>\<open>timestamp\<close> and
  \<^verbatim>\<open>in_reply_to\<close> set: the three fields that \<^verbatim>\<open>api_from_message\<close> reads and
  \<^verbatim>\<open>message_from_api\<close> does not produce.
\<close>

definition with_transport_fields :: "addr \<Rightarrow> pyval \<Rightarrow> pyval \<Rightarrow> pyval \<Rightarrow> heap \<Rightarrow> heap" where
  "with_transport_fields im mid ts irt h =
     setitem im ''in_reply_to'' irt (setitem im ''timestamp'' ts (setitem im ''message_id'' mid h))"

text \<open>
  The \<^verbatim>\<open>channel_data\<close> mapping of the external message at \<open>msg\<close> (empty when the
  message has none), and the address of the dictionary that \<^verbatim>\<open>message_from_api\<close> works
  on: the message's own \<^verbatim>\<open>channel_data\<close>, or the default \<^verbatim>\<open>{}\<close> it builds second.
\<close>

definition channel_data_of :: "heap \<Rightarrow> addr \<Rightarrow> pydict" where
  "channel_data_of h msg =
     (case cells h msg ''channel_data'' of Some (PRef cd) \<Rightarrow> cells h cd | _ \<Rightarrow> Map.empty)"

definition channel_data_addr :: "heap \<Rightarrow> addr \<Rightarrow> addr" where
  "channel_data_addr h msg =
     (case cells h msg ''channel_data'' of Some (PRef cd) \<Rightarrow> cd | _ \<Rightarrow> Suc (nxt h))"

section \<open>Notions used to state the channel's properties\<close>

text \<open>
  Worker \<open>w\<close> is attached to parent \<open>s\<close> under the name \<open>n\<close>: the worker and the parent
  agree about it.
\<close>

definition attached :: "world \<Rightarrow> sid \<Rightarrow> string \<Rightarrow> wid \<Rightarrow> bool" where
  "attached W s n w \<longleftrightarrow>
     w < length (workers W) \<and> wname (workers W ! w) = Some n \<and> wparent (workers W ! w) = Some s \<and>
     namedServices (svcs W s) n = Some w \<and> w \<in> set (services (svcs W s))"

text \<open>The workers named \<open>n\<close> that have a parent.\<close>

definition attached_named :: "world \<Rightarrow> string \<Rightarrow> wid set" where
  "attached_named W n =
     set (filter (\<lambda>w. wname (workers W ! w) = Some n \<and> wparent (workers W ! w) \<noteq> None)
            [0..<length (workers W)])"

text \<open>The world after worker \<open>w\<close>, named \<open>n\<close>, has left its parent \<open>s\<close>.\<close>

definition detached :: "wid \<Rightarrow> sid \<Rightarrow> string \<Rightarrow> world \<Rightarrow> world" where
  "detached w s n W =
     W\<lparr>workers := (workers W)[w := (workers W ! w)\<lparr>wparent := None\<rparr>],
       svcs := (svcs W)(s := (svcs W s)\<lparr>namedServices := (namedServices (svcs W s))(n := None),
                              services := remove1 w (services (svcs W s))\<rparr>)\<rparr>"

text \<open>The world after a new worker has been made, named \<open>n\<close> and attached to \<open>s\<close>.\<close>

definition with_new_worker :: "string \<Rightarrow> sid \<Rightarrow> string \<Rightarrow> jv \<Rightarrow> pyprops \<Rightarrow> world \<Rightarrow> world" where
  "with_new_worker n s cls cfg opts W =
     W\<lparr>workers := workers W @
          [\<lparr>wname = Some n, wparent = Some s, wcls = cls, wconfig = cfg, woptions = opts\<rparr>],
       svcs := (svcs W)(s := (svcs W s)\<lparr>namedServices := (namedServices (svcs W s))(n \<mapsto> length (workers W)),
                              services := services (svcs W s) @ [length (workers W)]\<rparr>)\<rparr>"

section \<open>Example inputs\<close>

text \<open>
  The properties \<^verbatim>\<open>{'type': 'telnet', 'config': {'port': 9000}, 'mo_url': 'http://x'}\<close>, a
  stand-in for the JSON functions that is exact on these properties, a world with nothing
  in it, and the channel \<^verbatim>\<open>c1\<close> with these properties.
\<close>

definition ex_props :: pyprops where
  "ex_props = [(''type'', JStr ''telnet''), (''config'', JDict [(''port'', JInt 9000)]),
               (''mo_url'', JStr ''http://x'')]"

definition ex_ext :: ext where
  "ex_ext = \<lparr>json_dumps = (\<lambda>p. if p = ex_props then ''P'' else []),
             json_loads = (\<lambda>s. if s = ''P'' then ex_props else []),
             default_vumi_options = []\<rparr>"

definition empty_world :: world where
  "empty_world = \<lparr>kv = Map.empty, sets = (\<lambda>_. {}), workers = [],
       svcs = (\<lambda>_. \<lparr>namedServices = Map.empty, services = []\<rparr>)\<rparr>"

definition ex_channel :: channel where
  "ex_channel = channel_init ex_ext [] ex_props ''c1''"

text \<open>The world and the channel after \<^verbatim>\<open>start\<close> under parent 0 in the empty world.\<close>

definition running_world :: world where
  "running_world = \<lparr>kv = Map.empty, sets = (\<lambda>_. {}),
     workers =
       [\<lparr>wname = Some ''c1'', wparent = Some 0,
         wcls = ''vumi.transports.telnet.TelnetServerTransport'',
         wconfig = JDict [(''port'', JInt 9000), (''transport_name'', JStr ''c1'')],
         woptions = []\<rparr>,
        \<lparr>wname = Some ''application:c1'', wparent = Some 0,
         wcls = ''junebug.workers.MessageForwardingWorker'',
         wconfig = JDict [(''transport_name'', JStr ''c1''), (''mo_message_url'', JStr ''http://x'')],
         woptions = []\<rparr>],
     svcs = (\<lambda>_. \<lparr>namedServices = Map.empty, services = []\<rparr>)
       (0 := \<lparr>namedServices = [''c1'' \<mapsto> 0, ''application:c1'' \<mapsto> 1], services = [0, 1]\<rparr>)\<rparr>"

definition running_channel :: channel where
  "running_channel = ex_channel\<lparr>transport_worker := Some 0, application_worker := Some 1\<rparr>"

text \<open>
  The external message
  \<^verbatim>\<open>{'to': '+2', 'from': '+1', 'content': 'hi', 'channel_data': {'continue_session': True, 'x': 7}}\<close>
  at address 0, its \<^verbatim>\<open>channel_data\<close> at address 1.
\<close>

definition session_msg_heap :: heap where
  "session_msg_heap =
     \<lparr>cells = (\<lambda>_. Map.empty)
        (0 := [''to'' \<mapsto> PStr ''+2'', ''from'' \<mapsto> PStr ''+1'', ''content'' \<mapsto> PStr ''hi'',
               ''channel_data'' \<mapsto> PRef 1],
         1 := [''continue_session'' \<mapsto> PBool True, ''x'' \<mapsto> PInt 7]),
      nxt = 2\<rparr>"

text \<open>
  An internal message with every field \<^verbatim>\<open>api_from_message\<close> reads and
  \<^verbatim>\<open>session_event = 'close'\<close>, at address 0; its \<^verbatim>\<open>helper_metadata\<close> \<^verbatim>\<open>{}\<close> at address 1.
\<close>

definition internal_msg_heap :: heap where
  "internal_msg_heap =
     \<lparr>cells = (\<lambda>_. Map.empty)
        (0 := [''to_addr'' \<mapsto> PStr ''+2'', ''from_addr'' \<mapsto> PStr ''+1'',
               ''message_id'' \<mapsto> PStr ''m1'', ''transport_name'' \<mapsto> PStr ''chan'',
               ''timestamp'' \<mapsto> PStr ''t'', ''in_reply_to'' \<mapsto> PNone,
               ''content'' \<mapsto> PStr ''hi'', ''helper_metadata'' \<mapsto> PRef 1,
               ''session_event'' \<mapsto> PStr ''close''],
         1 := Map.empty),
      nxt = 2\<rparr>"

text \<open>The external message \<^verbatim>\<open>{}\<close>, stored at address 0.\<close>

definition empty_msg_heap :: heap where
  "empty_msg_heap = \<lparr>cells = (\<lambda>_. Map.empty), nxt = 1\<rparr>"

text \<open>The external message \<^verbatim>\<open>{'from': '+1', 'content': 'hi'}\<close> (no \<^verbatim>\<open>to\<close>), at address 0.\<close>

definition plain_msg_heap :: heap where
  "plain_msg_heap =
     \<lparr>cells = (\<lambda>_. Map.empty)(0 := [''from'' \<mapsto> PStr ''+1'', ''content'' \<mapsto> PStr ''hi'']),
      nxt = 1\<rparr>"

text \<open>
  A channel whose \<^verbatim>\<open>type\<close> is not in the table, and a world with one worker that has
  neither name nor parent (a transport worker made by a test).
\<close>

definition bad_channel :: channel where
  "bad_channel = channel_init ex_ext []
     [(''type'', JStr ''smpp''), (''config'', JDict []), (''mo_url'', JStr ''http://x'')] ''c9''"

definition spare_world :: world where
  "spare_world = empty_world\<lparr>workers :=
     [\<lparr>wname = None, wparent = None, wcls = ''test.Transport'', wconfig = JDict [],
       woptions = []\<rparr>]\<rparr>"

section \<open>Store lemmas\<close>

lemma cells_setitem:
  "cells (setitem a k v h) b = (if b = a then (cells h a)(k \<mapsto> v) else cells h b)"
  by (simp add: setitem_def)

lemma nxt_setitem: "nxt (setitem a k v h) = nxt h"
  by (simp add: setitem_def)

lemma cells_delitem:
  "cells (delitem a k h) b = (if b = a then (cells h a)(k := None) else cells h b)"
  by (simp add: delitem_def)

lemma nxt_delitem: "nxt (delitem a k h) = nxt h"
  by (simp add: delitem_def)

lemma nxt_pop_into: "nxt (pop_into ret cd k h) = nxt h"
  by (simp add: pop_into_def nxt_setitem nxt_delitem)

lemmas heap_simps = cells_setitem nxt_setitem cells_delitem nxt_delitem nxt_pop_into

lemma cells_new_dict: "cells (snd (new_dict h)) b = (if b = nxt h then Map.empty else cells h b)"
  by (simp add: new_dict_def)

lemma nxt_new_dict: "nxt (snd (new_dict h)) = Suc (nxt h)"
  by (simp add: new_dict_def)

section \<open>Translation to the internal form: required fields\<close>

text \<open>
  Claim C6, as the code has it. The outcome of \<^verbatim>\<open>message_from_api\<close> on a stored message
  is decided by \<^verbatim>\<open>from\<close>, \<^verbatim>\<open>content\<close> and \<^verbatim>\<open>channel_data\<close> alone: a missing \<^verbatim>\<open>from\<close>
  raises \<^verbatim>\<open>KeyError('from')\<close>, otherwise a missing \<^verbatim>\<open>content\<close> raises
  \<^verbatim>\<open>KeyError('content')\<close>, otherwise the call returns the new internal message unless
  \<^verbatim>\<open>channel_data\<close> is present and not a dictionary. The \<^verbatim>\<open>to\<close> field does not occur in
  the condition: its absence never causes a failure.
\<close>

theorem message_from_api_outcome:
  assumes "msg < nxt h"
  shows "fst (message_from_api chid msg h) =
     (if cells h msg ''from'' = None then Inl (KeyError ''from'')
      else if cells h msg ''content'' = None then Inl (KeyError ''content'')
      else case cells h msg ''channel_data'' of
             None \<Rightarrow> Inr (nxt h)
           | Some (PRef cd) \<Rightarrow> Inr (nxt h)
           | Some _ \<Rightarrow> Inl AttributeError)"
  using assms
  by (auto simp add: message_from_api_def new_dict_def setitem_def Let_def
      split: option.splits pyval.splits)

theorem message_from_api_outcome_witness:
  "(0::nat) < nxt plain_msg_heap \<and> cells plain_msg_heap 0 ''to'' = None \<and>
   fst (message_from_api ''chan'' 0 plain_msg_heap) = Inr 1"
  using message_from_api_outcome [of 0 plain_msg_heap "''chan''"]
  by (simp add: plain_msg_heap_def)

text \<open>
  Claim C6 as stated fails: a message without \<^verbatim>\<open>from\<close> makes the translation raise
  \<^verbatim>\<open>KeyError\<close>; the module defines no \<^verbatim>\<open>InvalidMessage\<close>.
\<close>

theorem message_from_api_missing_from_counterexample:
  "fst (message_from_api ''chan'' 0 empty_msg_heap) = Inl (KeyError ''from'')"
  by (simp add: message_from_api_def new_dict_def setitem_def empty_msg_heap_def Let_def)

section \<open>Effects of the translator on the store\<close>

lemma cells_pop_into_other:
  "b \<noteq> ret \<Longrightarrow> b \<noteq> cd \<Longrightarrow> cells (pop_into ret cd k h) b = cells h b"
  by (simp add: pop_into_def cells_setitem cells_delitem)

lemma cells_pop_into_cd:
  "ret \<noteq> cd \<Longrightarrow> cells (pop_into ret cd k h) cd =
     (if dict_get (cells h cd) k \<noteq> PNone then (cells h cd)(k := None) else cells h cd)"
  by (simp add: pop_into_def cells_setitem cells_delitem)

lemma cells_pop_into_ret:
  "ret \<noteq> cd \<Longrightarrow> cells (pop_into ret cd k h) ret =
     (if dict_get (cells h cd) k \<noteq> PNone then (cells h ret)(k \<mapsto> dict_get (cells h cd) k)
      else cells h ret)"
  by (simp add: pop_into_def cells_setitem cells_delitem)

lemma copy_item_cases:
  assumes "cells h msg ki = None \<Longrightarrow> P (Inl (KeyError ki), h)"
    and "\<And>v. cells h msg ki = Some v \<Longrightarrow> P (rest (setitem ret ko v h))"
  shows "P (copy_item ret ko msg ki h rest)"
  using assms by (simp add: copy_item_def split: option.split)

lemma fold_into_cases:
  assumes "dict_get (cells h msg) k = PNone \<Longrightarrow> P (rest h)"
    and "\<And>cd. dict_get (cells h msg) k \<noteq> PNone \<Longrightarrow> dict_get (cells h ret) ''channel_data'' = PRef cd
           \<Longrightarrow> P (rest (setitem cd k (dict_get (cells h msg) k) h))"
    and "dict_get (cells h msg) k \<noteq> PNone \<Longrightarrow> \<forall>cd. dict_get (cells h ret) ''channel_data'' \<noteq> PRef cd
           \<Longrightarrow> P (Inl TypeError, h)"
  shows "P (fold_into ret msg k h rest)"
  using assms by (auto simp add: fold_into_def split: pyval.split)

lemma afm_frame:
  assumes "a < nxt h0" "msg < nxt h0"
  shows "cells (snd (api_from_message msg h0)) a k =
     (if fst (api_from_message msg h0) = Inr (nxt h0) \<and> cells h0 msg ''helper_metadata'' = Some (PRef a)
         \<and> k \<in> {''continue_session'', ''session_event''} \<and> dict_get (cells h0 msg) k \<noteq> PNone
      then Some (dict_get (cells h0 msg) k) else cells h0 a k)"
proof -
  let ?P = "\<lambda>r. cells (snd r) a k =
     (if fst r = Inr (nxt h0) \<and> cells h0 msg ''helper_metadata'' = Some (PRef a)
         \<and> k \<in> {''continue_session'', ''session_event''} \<and> dict_get (cells h0 msg) k \<noteq> PNone
      then Some (dict_get (cells h0 msg) k) else cells h0 a k)"
  have ne: "a \<noteq> nxt h0" "msg \<noteq> nxt h0" using assms by auto
  have "?P (api_from_message msg h0)"
    unfolding api_from_message_def new_dict_def Let_def prod.case
    apply (rule copy_item_cases, simp add: heap_simps ne)
    apply (rule copy_item_cases, simp add: heap_simps ne)
    apply (rule copy_item_cases, simp add: heap_simps ne)
    apply (rule copy_item_cases, simp add: heap_simps ne)
    apply (rule copy_item_cases, simp add: heap_simps ne)
    apply (rule copy_item_cases, simp add: heap_simps ne)
    apply (rule copy_item_cases, simp add: heap_simps ne)
    apply (rule copy_item_cases, simp add: heap_simps ne)
    apply (rule fold_into_cases)
    subgoal
      apply (rule fold_into_cases)
      subgoal by (auto simp add: heap_simps ne)
      subgoal by (auto simp add: heap_simps ne dict_get_def split: if_splits)
      subgoal by (auto simp add: heap_simps ne)
      done
    subgoal
      apply (rule fold_into_cases)
      subgoal by (auto simp add: heap_simps ne dict_get_def split: if_splits)
      subgoal by (auto simp add: heap_simps ne dict_get_def split: if_splits)
      subgoal by (auto simp add: heap_simps ne dict_get_def split: if_splits)
      done
    subgoal by (auto simp add: heap_simps ne)
    done
  then show ?thesis .
qed

lemma mfa_frame:
  assumes "a < nxt h0" "msg < nxt h0"
  shows "cells (snd (message_from_api chid msg h0)) a k =
     (if fst (message_from_api chid msg h0) = Inr (nxt h0) \<and> cells h0 msg ''channel_data'' = Some (PRef a)
         \<and> k \<in> {''continue_session'', ''session_event''} \<and> dict_get (cells h0 a) k \<noteq> PNone
      then None else cells h0 a k)"
proof -
  have ne: "a \<noteq> nxt h0" "msg \<noteq> nxt h0" "a \<noteq> Suc (nxt h0)" "msg \<noteq> Suc (nxt h0)"
    "nxt h0 \<noteq> a"
    using assms by auto
  show ?thesis
  proof (cases "cells h0 msg ''from''")
    case None
    then show ?thesis
      by (simp add: message_from_api_def new_dict_def Let_def heap_simps ne)
  next
    case f: (Some f)
    show ?thesis
    proof (cases "cells h0 msg ''content''")
      case None
      then show ?thesis using f
        by (simp add: message_from_api_def new_dict_def Let_def heap_simps ne)
    next
      case c: (Some c)
      show ?thesis
      proof (cases "cells h0 msg ''channel_data''")
        case None
        then show ?thesis using f c
          by (simp add: message_from_api_def new_dict_def Let_def heap_simps ne
              cells_pop_into_other)
      next
        case (Some v)
        show ?thesis
        proof (cases "v = PRef a")
          case True
          then show ?thesis using f c Some
            by (auto simp add: message_from_api_def new_dict_def Let_def heap_simps ne
              cells_pop_into_cd dict_get_def)
        next
          case False
          then show ?thesis using f c Some
            by (cases v) (simp_all add: message_from_api_def new_dict_def Let_def heap_simps ne
              cells_pop_into_other)
        qed
      qed
    qed
  qed
qed

lemma mfa_internal:
  assumes "msg < nxt h0" "cells h0 msg ''from'' = Some f" "cells h0 msg ''content'' = Some c"
    and "cells h0 msg ''channel_data'' = None \<or>
         (\<exists>cd. cells h0 msg ''channel_data'' = Some (PRef cd) \<and> cd < nxt h0)"
  shows "fst (message_from_api chid msg h0) = Inr (nxt h0)"
    and "nxt (snd (message_from_api chid msg h0)) = Suc (Suc (nxt h0))"
    and "cells (snd (message_from_api chid msg h0)) (nxt h0) k =
     (if k = ''helper_metadata'' then Some (PRef (channel_data_addr h0 msg))
      else if k \<in> {''continue_session'', ''session_event''} then
        (if dict_get (channel_data_of h0 msg) k \<noteq> PNone
         then Some (dict_get (channel_data_of h0 msg) k) else None)
      else if k = ''transport_name'' then Some (PStr chid)
      else if k = ''content'' then Some c
      else if k = ''from_addr'' then Some f
      else if k = ''to_addr'' then Some (dict_get (cells h0 msg) ''to'')
      else None)"
    and "cells (snd (message_from_api chid msg h0)) (channel_data_addr h0 msg) k =
     (if k \<in> {''continue_session'', ''session_event''} \<and> dict_get (channel_data_of h0 msg) k \<noteq> PNone
      then None else channel_data_of h0 msg k)"
proof -
  have ne: "msg \<noteq> nxt h0" "msg \<noteq> Suc (nxt h0)" using assms(1) by auto
  from assms(4) show "fst (message_from_api chid msg h0) = Inr (nxt h0)"
    using ne assms(2,3)
    by (auto simp add: message_from_api_def new_dict_def Let_def heap_simps)
  from assms(4) show "nxt (snd (message_from_api chid msg h0)) = Suc (Suc (nxt h0))"
    using ne assms(2,3)
    by (auto simp add: message_from_api_def new_dict_def Let_def heap_simps)
  from assms(4) show "cells (snd (message_from_api chid msg h0)) (nxt h0) k =
     (if k = ''helper_metadata'' then Some (PRef (channel_data_addr h0 msg))
      else if k \<in> {''continue_session'', ''session_event''} then
        (if dict_get (channel_data_of h0 msg) k \<noteq> PNone
         then Some (dict_get (channel_data_of h0 msg) k) else None)
      else if k = ''transport_name'' then Some (PStr chid)
      else if k = ''content'' then Some c
      else if k = ''from_addr'' then Some f
      else if k = ''to_addr'' then Some (dict_get (cells h0 msg) ''to'')
      else None)"
  proof
    assume a: "cells h0 msg ''channel_data'' = None"
    show ?thesis using ne assms(2,3) a
      by (simp add: message_from_api_def new_dict_def Let_def heap_simps channel_data_addr_def
          channel_data_of_def cells_pop_into_ret cells_pop_into_cd dict_get_def)
  next
    assume "\<exists>cd. cells h0 msg ''channel_data'' = Some (PRef cd) \<and> cd < nxt h0"
    then obtain cd where a: "cells h0 msg ''channel_data'' = Some (PRef cd)" and b: "cd < nxt h0"
      by blast
    have c: "nxt h0 \<noteq> cd" "cd \<noteq> nxt h0" "cd \<noteq> Suc (nxt h0)" using b by auto
    show ?thesis using ne assms(2,3) a c
      by (simp add: message_from_api_def new_dict_def Let_def heap_simps channel_data_addr_def
          channel_data_of_def cells_pop_into_ret cells_pop_into_cd dict_get_def)
  qed
  from assms(4) show "cells (snd (message_from_api chid msg h0)) (channel_data_addr h0 msg) k =
     (if k \<in> {''continue_session'', ''session_event''} \<and> dict_get (channel_data_of h0 msg) k \<noteq> PNone
      then None else channel_data_of h0 msg k)"
  proof
    assume a: "cells h0 msg ''channel_data'' = None"
    show ?thesis using ne assms(2,3) a
      by (simp add: message_from_api_def new_dict_def Let_def heap_simps channel_data_addr_def
          channel_data_of_def cells_pop_into_ret cells_pop_into_cd dict_get_def)
  next
    assume "\<exists>cd. cells h0 msg ''channel_data'' = Some (PRef cd) \<and> cd < nxt h0"
    then obtain cd where a: "cells h0 msg ''channel_data'' = Some (PRef cd)" and b: "cd < nxt h0"
      by blast
    have c: "nxt h0 \<noteq> cd" "cd \<noteq> nxt h0" "cd \<noteq> Suc (nxt h0)" using b by auto
    show ?thesis using ne assms(2,3) a c
      by (auto simp add: message_from_api_def new_dict_def Let_def heap_simps channel_data_addr_def
          channel_data_of_def cells_pop_into_ret cells_pop_into_cd dict_get_def)
  qed
qed

lemma afm_external:
  assumes "msg \<noteq> nxt h" "cd \<noteq> nxt h"
    "cells h msg ''to_addr'' = Some v1" "cells h msg ''from_addr'' = Some v2"
    "cells h msg ''message_id'' = Some v3" "cells h msg ''transport_name'' = Some v4"
    "cells h msg ''timestamp'' = Some v5" "cells h msg ''in_reply_to'' = Some v6"
    "cells h msg ''content'' = Some v7" "cells h msg ''helper_metadata'' = Some (PRef cd)"
  shows "fst (api_from_message msg h) = Inr (nxt h)"
    and "cells (snd (api_from_message msg h)) (nxt h) =
      [''to'' \<mapsto> v1, ''from'' \<mapsto> v2, ''message_id'' \<mapsto> v3, ''channel_id'' \<mapsto> v4,
       ''timestamp'' \<mapsto> v5, ''reply_to'' \<mapsto> v6, ''content'' \<mapsto> v7, ''channel_data'' \<mapsto> PRef cd]"
  using assms
  by (simp_all add: api_from_message_def copy_item_def fold_into_def new_dict_def Let_def
      heap_simps dict_get_def)

text \<open>
  Claim C9, as the code has it. Of the dictionaries that exist before the call (addresses
  below \<open>nxt\<close>), \<^verbatim>\<open>message_from_api\<close> changes only the message's \<^verbatim>\<open>channel_data\<close>: when
  the call returns, the \<^verbatim>\<open>continue_session\<close> and \<^verbatim>\<open>session_event\<close> entries whose value
  is not \<^verbatim>\<open>None\<close> have been removed from it. \<^verbatim>\<open>api_from_message\<close> changes only the
  message's \<^verbatim>\<open>helper_metadata\<close>: when the call returns, the message's own
  \<^verbatim>\<open>continue_session\<close> and \<^verbatim>\<open>session_event\<close> values that are not \<^verbatim>\<open>None\<close> have been
  written into it. Every other entry of every existing dictionary, the top level of the
  message included, is as before.
\<close>

theorem translator_store_effects:
  assumes "a < nxt h" and "msg < nxt h"
  shows "cells (snd (message_from_api chid msg h)) a k =
     (if fst (message_from_api chid msg h) = Inr (nxt h)
         \<and> cells h msg ''channel_data'' = Some (PRef a)
         \<and> k \<in> {''continue_session'', ''session_event''} \<and> dict_get (cells h a) k \<noteq> PNone
      then None else cells h a k)
   \<and> cells (snd (api_from_message msg h)) a k =
     (if fst (api_from_message msg h) = Inr (nxt h)
         \<and> cells h msg ''helper_metadata'' = Some (PRef a)
         \<and> k \<in> {''continue_session'', ''session_event''} \<and> dict_get (cells h msg) k \<noteq> PNone
      then Some (dict_get (cells h msg) k) else cells h a k)"
  using mfa_frame [OF assms] afm_frame [OF assms] by simp

theorem translator_store_effects_witness:
  "(1::nat) < nxt session_msg_heap \<and> (0::nat) < nxt session_msg_heap \<and>
   cells (snd (message_from_api ''chan'' 0 session_msg_heap)) 1 ''x'' = Some (PInt 7) \<and>
   cells (snd (api_from_message 0 session_msg_heap)) 1 ''x'' = Some (PInt 7)"
  using translator_store_effects [of 1 session_msg_heap 0 "''chan''" "''x''"]
  by (simp add: session_msg_heap_def)

text \<open>
  Claim C9 as stated fails for both functions: \<^verbatim>\<open>message_from_api\<close> removes
  \<^verbatim>\<open>continue_session\<close> from the caller's \<^verbatim>\<open>channel_data\<close>, and \<^verbatim>\<open>api_from_message\<close>
  writes \<^verbatim>\<open>session_event\<close> into the internal message's \<^verbatim>\<open>helper_metadata\<close>.
\<close>

theorem translator_mutates_input_counterexample:
  "cells session_msg_heap 1 ''continue_session'' = Some (PBool True) \<and>
   cells (snd (message_from_api ''chan'' 0 session_msg_heap)) 1 ''continue_session'' = None \<and>
   cells internal_msg_heap 1 ''session_event'' = None \<and>
   cells (snd (api_from_message 0 internal_msg_heap)) 1 ''session_event'' = Some (PStr ''close'')"
  by (simp add: session_msg_heap_def internal_msg_heap_def message_from_api_def
      api_from_message_def copy_item_def fold_into_def pop_into_def new_dict_def setitem_def
      delitem_def dict_get_def Let_def)

section \<open>Round trip of the translator\<close>

text \<open>
  Claim C1, as the code has it. Let the external message at \<open>msg\<close> have \<^verbatim>\<open>from\<close> and
  \<^verbatim>\<open>content\<close>, and \<^verbatim>\<open>channel_data\<close> absent or a dictionary. Then \<^verbatim>\<open>message_from_api\<close>
  returns an internal message. Applied to that message as it is, \<^verbatim>\<open>api_from_message\<close>
  raises \<^verbatim>\<open>KeyError('message_id')\<close>. Applied to that message with \<^verbatim>\<open>message_id\<close>,
  \<^verbatim>\<open>timestamp\<close> and \<^verbatim>\<open>in_reply_to\<close> set to any values, \<^verbatim>\<open>api_from_message\<close> returns
  an external message whose \<^verbatim>\<open>to\<close> is the original's (\<^verbatim>\<open>None\<close> if it had none), whose
  \<^verbatim>\<open>from\<close> and \<^verbatim>\<open>content\<close> are the original's, whose \<^verbatim>\<open>channel_id\<close> is the channel
  id, whose \<^verbatim>\<open>channel_data\<close> has exactly the original entries (so \<^verbatim>\<open>continue_session\<close>
  and \<^verbatim>\<open>session_event\<close> are there exactly when they were), and whose keys are the eight
  fields of the external form.
\<close>

theorem translator_round_trip:
  assumes "msg < nxt h0" "cells h0 msg ''from'' = Some f" "cells h0 msg ''content'' = Some c"
    and "cells h0 msg ''channel_data'' = None \<or>
         (\<exists>cd. cells h0 msg ''channel_data'' = Some (PRef cd) \<and> cd < nxt h0)"
  shows "\<exists>h1 ret h2 cd.
     message_from_api chid msg h0 = (Inr (nxt h0), h1) \<and>
     fst (api_from_message (nxt h0) h1) = Inl (KeyError ''message_id'') \<and>
     api_from_message (nxt h0) (with_transport_fields (nxt h0) mid ts irt h1) = (Inr ret, h2) \<and>
     cells h2 ret ''to'' = Some (dict_get (cells h0 msg) ''to'') \<and>
     cells h2 ret ''from'' = Some f \<and>
     cells h2 ret ''content'' = Some c \<and>
     cells h2 ret ''channel_id'' = Some (PStr chid) \<and>
     cells h2 ret ''channel_data'' = Some (PRef cd) \<and>
     cells h2 cd = channel_data_of h0 msg \<and>
     dom (cells h2 ret) = {''to'', ''from'', ''message_id'', ''channel_id'', ''timestamp'',
                          ''reply_to'', ''content'', ''channel_data''}"
proof -
  define h1 where "h1 = snd (message_from_api chid msg h0)"
  define im where "im = nxt h0"
  define cd where "cd = channel_data_addr h0 msg"
  define h1' where "h1' = with_transport_fields im mid ts irt h1"
  define h2 where "h2 = snd (api_from_message im h1')"
  note mi = mfa_internal [OF assms, of chid]
  have r1: "message_from_api chid msg h0 = (Inr (nxt h0), h1)"
    using mi(1) by (simp add: h1_def prod_eq_iff)
  have n1: "nxt h1' = Suc (Suc (nxt h0))"
    using mi(2) by (simp add: h1'_def h1_def with_transport_fields_def heap_simps)
  have cdlt: "cd < nxt h0 \<or> cd = Suc (nxt h0)"
    using assms(4) by (auto simp add: cd_def channel_data_addr_def)
  have ne: "im \<noteq> nxt h1'" "cd \<noteq> nxt h1'" "cd \<noteq> im" "cd < nxt h1'" "im < nxt h1'"
    using n1 cdlt by (auto simp add: im_def)
  have im_k: "cells h1' im k =
     (if k = ''in_reply_to'' then Some irt else if k = ''timestamp'' then Some ts
      else if k = ''message_id'' then Some mid else cells h1 im k)" for k
    by (simp add: h1'_def with_transport_fields_def heap_simps)
  have cd_k: "cells h1' cd = cells h1 cd"
    using ne(3) by (simp add: h1'_def with_transport_fields_def heap_simps)
  have h1im: "cells h1 im k =
     (if k = ''helper_metadata'' then Some (PRef cd)
      else if k \<in> {''continue_session'', ''session_event''} then
        (if dict_get (channel_data_of h0 msg) k \<noteq> PNone
         then Some (dict_get (channel_data_of h0 msg) k) else None)
      else if k = ''transport_name'' then Some (PStr chid)
      else if k = ''content'' then Some c
      else if k = ''from_addr'' then Some f
      else if k = ''to_addr'' then Some (dict_get (cells h0 msg) ''to'')
      else None)" for k
    using mi(3) [of k] by (simp add: h1_def im_def cd_def)
  have h1cd: "cells h1 cd k =
     (if k \<in> {''continue_session'', ''session_event''} \<and> dict_get (channel_data_of h0 msg) k \<noteq> PNone
      then None else channel_data_of h0 msg k)" for k
    using mi(4) [of k] by (simp add: h1_def cd_def)
  have k1: "cells h1' im ''to_addr'' = Some (dict_get (cells h0 msg) ''to'')"
    and k2: "cells h1' im ''from_addr'' = Some f"
    and k3: "cells h1' im ''message_id'' = Some mid"
    and k4: "cells h1' im ''transport_name'' = Some (PStr chid)"
    and k5: "cells h1' im ''timestamp'' = Some ts"
    and k6: "cells h1' im ''in_reply_to'' = Some irt"
    and k7: "cells h1' im ''content'' = Some c"
    and k8: "cells h1' im ''helper_metadata'' = Some (PRef cd)"
    by (simp_all add: im_k h1im)
  note ae = afm_external [OF ne(1) ne(2) k1 k2 k3 k4 k5 k6 k7 k8]
  have r2: "api_from_message im h1' = (Inr (nxt h1'), h2)"
    using ae(1) by (simp add: h2_def prod_eq_iff)
  have ret: "cells h2 (nxt h1') =
      [''to'' \<mapsto> dict_get (cells h0 msg) ''to'', ''from'' \<mapsto> f, ''message_id'' \<mapsto> mid,
       ''channel_id'' \<mapsto> PStr chid, ''timestamp'' \<mapsto> ts, ''reply_to'' \<mapsto> irt,
       ''content'' \<mapsto> c, ''channel_data'' \<mapsto> PRef cd]"
    using ae(2) by (simp add: h2_def)
  have cs: "dict_get (cells h1' im) ''continue_session'' = dict_get (channel_data_of h0 msg) ''continue_session''"
    by (simp add: im_k h1im dict_get_def)
  have se: "dict_get (cells h1' im) ''session_event'' = dict_get (channel_data_of h0 msg) ''session_event''"
    by (simp add: im_k h1im dict_get_def)
  have "cells h2 cd k = channel_data_of h0 msg k" for k
  proof -
    have "cells h2 cd k =
       (if k \<in> {''continue_session'', ''session_event''} \<and> dict_get (cells h1' im) k \<noteq> PNone
        then Some (dict_get (cells h1' im) k) else cells h1' cd k)"
      using afm_frame [OF ne(4) ne(5), of k] ae(1) k8 by (simp add: h2_def)
    then show ?thesis
      using cs se by (auto simp add: cd_k h1cd dict_get_def split: option.splits)
  qed
  then have cdeq: "cells h2 cd = channel_data_of h0 msg" by (simp add: fun_eq_iff)
  have d: "dom (cells h2 (nxt h1')) = {''to'', ''from'', ''message_id'', ''channel_id'', ''timestamp'',
                          ''reply_to'', ''content'', ''channel_data''}"
    unfolding ret by (simp add: insert_commute)
  have r2': "api_from_message (nxt h0) (with_transport_fields (nxt h0) mid ts irt h1) =
      (Inr (nxt h1'), h2)"
    using r2 by (simp add: im_def h1'_def)
  have e: "cells h2 (nxt h1') ''to'' = Some (dict_get (cells h0 msg) ''to'')"
    "cells h2 (nxt h1') ''from'' = Some f" "cells h2 (nxt h1') ''content'' = Some c"
    "cells h2 (nxt h1') ''channel_id'' = Some (PStr chid)"
    "cells h2 (nxt h1') ''channel_data'' = Some (PRef cd)"
    by (simp_all add: ret)
  have n0: "nxt h1 = Suc (Suc (nxt h0))"
    using mi(2) by (simp add: h1_def)
  have dc: "fst (api_from_message (nxt h0) h1) = Inl (KeyError ''message_id'')"
    using h1im [of "''to_addr''"] h1im [of "''from_addr''"] h1im [of "''message_id''"] n0
    by (simp add: api_from_message_def copy_item_def new_dict_def heap_simps im_def)
  show ?thesis
    using r1 dc r2' e cdeq d by blast
qed

theorem translator_round_trip_witness:
  "(0::nat) < nxt session_msg_heap \<and>
   (\<exists>h1 ret h2 cd.
     message_from_api ''chan'' 0 session_msg_heap = (Inr 2, h1) \<and>
     api_from_message 2 (with_transport_fields 2 (PStr ''m1'') (PStr ''t'') PNone h1) = (Inr ret, h2) \<and>
     cells h2 ret ''to'' = Some (PStr ''+2'') \<and>
     cells h2 ret ''from'' = Some (PStr ''+1'') \<and>
     cells h2 ret ''content'' = Some (PStr ''hi'') \<and>
     cells h2 ret ''channel_data'' = Some (PRef cd) \<and>
     cells h2 cd ''continue_session'' = Some (PBool True) \<and>
     cells h2 cd ''session_event'' = None)"
proof -
  have a: "(0::nat) < nxt session_msg_heap" by (simp add: session_msg_heap_def)
  have b: "cells session_msg_heap 0 ''from'' = Some (PStr ''+1'')"
    and c: "cells session_msg_heap 0 ''content'' = Some (PStr ''hi'')"
    and d: "cells session_msg_heap 0 ''channel_data'' = None \<or>
         (\<exists>cd. cells session_msg_heap 0 ''channel_data'' = Some (PRef cd) \<and> cd < nxt session_msg_heap)"
    by (simp_all add: session_msg_heap_def)
  have n: "nxt session_msg_heap = 2" by (simp add: session_msg_heap_def)
  have t: "dict_get (cells session_msg_heap 0) ''to'' = PStr ''+2''"
    by (simp add: session_msg_heap_def dict_get_def)
  have e: "channel_data_of session_msg_heap 0 ''continue_session'' = Some (PBool True)"
    "channel_data_of session_msg_heap 0 ''session_event'' = None"
    by (simp_all add: session_msg_heap_def channel_data_of_def)
  from translator_round_trip [OF a b c d, of "''chan''" "PStr ''m1''" "PStr ''t''" PNone]
  show ?thesis
    apply (elim exE conjE)
    subgoal for h1 ret h2 cd
      apply (rule conjI, rule a)
      apply (rule exI [of _ h1], rule exI [of _ ret], rule exI [of _ h2], rule exI [of _ cd])
      apply (simp only: n t e)
      done
    done
qed

text \<open>
  Claim C1 as stated fails: applied directly to the result of \<^verbatim>\<open>message_from_api\<close>,
  \<^verbatim>\<open>api_from_message\<close> raises \<^verbatim>\<open>KeyError('message_id')\<close>.
\<close>

theorem translator_direct_composition_counterexample:
  "fst (message_from_api ''chan'' 0 plain_msg_heap) = Inr 1 \<and>
   fst (api_from_message 1 (snd (message_from_api ''chan'' 0 plain_msg_heap)))
     = Inl (KeyError ''message_id'')"
  by (simp add: plain_msg_heap_def message_from_api_def api_from_message_def copy_item_def
      pop_into_def new_dict_def setitem_def dict_get_def Let_def)

section \<open>Persistence: save, load and delete\<close>

lemma ex_channel_fields:
  "properties ex_channel = ex_props" "cid ex_channel = ''c1''" "options ex_channel = []"
  "transport_worker ex_channel = None" "application_worker ex_channel = None"
  by (simp_all add: ex_channel_def channel_init_def ex_ext_def)

lemma ex_ext_round_trip: "json_loads ex_ext (json_dumps ex_ext ex_props) = ex_props"
  by (simp add: ex_ext_def)

lemma from_id_not_found_iff:
  "fst (from_id X amqp i parent W) = Inl ChannelNotFound \<longleftrightarrow> kv W (i, ''properties'') = None"
  by (auto simp add: from_id_def restore_def getServiceNamed_def Let_def
      split: option.splits sum.splits prod.splits)

lemma from_id_stored:
  assumes "kv W (i, ''properties'') = Some s"
  shows "from_id X amqp i parent W =
     (case namedServices (svcs W parent) i of
        None \<Rightarrow> (Inl (KeyError i), W)
      | Some tw \<Rightarrow>
          (case namedServices (svcs W parent) (''application:'' @ i) of
             None \<Rightarrow> (Inl (KeyError (''application:'' @ i)), W)
           | Some aw \<Rightarrow>
               (Inr ((channel_init X amqp (json_loads X s) i)
                       \<lparr>transport_worker := Some tw, application_worker := Some aw\<rparr>), W)))"
  using assms
  by (simp add: from_id_def restore_def getServiceNamed_def Let_def application_id_def
      channel_init_def split: option.splits)

lemma save_result:
  "save X ch W = (Inr (), ch,
      W\<lparr>kv := (kv W)((cid ch, ''properties'') \<mapsto> json_dumps X (properties ch)),
        sets := (sets W)(''channels'' := insert (cid ch) (sets W ''channels''))\<rparr>)"
  by (simp add: save_def Let_def)

text \<open>
  Claim C4, as the code has it. \<^verbatim>\<open>from_id\<close> raises \<^verbatim>\<open>ChannelNotFound\<close> exactly when no
  \<^verbatim>\<open>properties\<close> record is stored for the id. After \<^verbatim>\<open>save\<close>, given that
  \<^verbatim>\<open>json.loads\<close> undoes \<^verbatim>\<open>json.dumps\<close> on the saved properties, \<^verbatim>\<open>from_id\<close> returns a
  channel with exactly the saved properties, the id and the two workers found under the
  parent, provided the parent has children named \<^verbatim>\<open>id\<close> and \<^verbatim>\<open>application:id\<close>; if
  one is missing, the \<^verbatim>\<open>KeyError\<close> of \<^verbatim>\<open>getServiceNamed\<close> leaves \<^verbatim>\<open>from_id\<close>.
\<close>

theorem from_id_after_save:
  assumes "json_loads X (json_dumps X (properties ch)) = properties ch"
  shows "(fst (from_id X amqp i parent W) = Inl ChannelNotFound \<longleftrightarrow> kv W (i, ''properties'') = None)
   \<and> (let W1 = snd (snd (save X ch W)) in
      from_id X amqp (cid ch) parent W1 =
       (case namedServices (svcs W parent) (cid ch) of
          None \<Rightarrow> (Inl (KeyError (cid ch)), W1)
        | Some tw \<Rightarrow>
            (case namedServices (svcs W parent) (application_id ch) of
               None \<Rightarrow> (Inl (KeyError (application_id ch)), W1)
             | Some aw \<Rightarrow>
                 (Inr \<lparr>properties = properties ch, cid = cid ch,
                       options = AList.merge (default_vumi_options X) amqp,
                       transport_worker = Some tw, application_worker = Some aw\<rparr>, W1))))"
proof -
  let ?W1 = "snd (snd (save X ch W))"
  have k: "kv ?W1 (cid ch, ''properties'') = Some (json_dumps X (properties ch))"
    by (simp add: save_result)
  have s: "svcs ?W1 = svcs W" by (simp add: save_result)
  show ?thesis
    using from_id_stored [OF k, of X amqp parent] assms
    by (simp add: from_id_not_found_iff s Let_def application_id_def channel_init_def
        split: option.splits)
qed

theorem from_id_after_save_witness:
  "json_loads ex_ext (json_dumps ex_ext (properties ex_channel)) = properties ex_channel \<and>
   fst (from_id ex_ext [] ''c1'' 0 (snd (snd (save ex_ext ex_channel running_world))))
     = Inr running_channel"
  using from_id_after_save [of ex_ext ex_channel "[]" "''c1''" 0 running_world]
  by (simp add: ex_channel_fields ex_ext_round_trip Let_def application_id_def
      running_world_def running_channel_def ex_channel_def channel_init_def)

text \<open>
  Claim C4 as stated fails: the record of \<^verbatim>\<open>c1\<close> is stored, but the parent has no
  child named \<^verbatim>\<open>c1\<close>, and \<^verbatim>\<open>from_id\<close> raises \<^verbatim>\<open>KeyError\<close> instead of returning a
  channel.
\<close>

theorem from_id_without_workers_counterexample:
  "kv (snd (snd (save ex_ext ex_channel empty_world))) (''c1'', ''properties'') \<noteq> None \<and>
   fst (from_id ex_ext [] ''c1'' 0 (snd (snd (save ex_ext ex_channel empty_world))))
     = Inl (KeyError ''c1'')"
  by (simp add: save_result ex_channel_fields from_id_def restore_def getServiceNamed_def
      empty_world_def channel_init_def Let_def)

text \<open>
  Claim C7. After \<^verbatim>\<open>save\<close> and then \<^verbatim>\<open>delete\<close>: \<^verbatim>\<open>delete\<close> returns without touching
  the channel object, the workers or the services; \<^verbatim>\<open>from_id\<close> for the id raises
  \<^verbatim>\<open>ChannelNotFound\<close>; the id is still in the set \<^verbatim>\<open>get_all\<close> returns; the stored
  strings are those from before the \<^verbatim>\<open>save\<close> with this channel's \<^verbatim>\<open>properties\<close>
  removed, so that loading any other id gives what it gave before.
\<close>

theorem save_delete:
  assumes "i \<noteq> cid ch"
  shows "let W1 = snd (snd (save X ch W)); r = delete_channel ch W1; W2 = snd (snd r) in
     fst r = Inr () \<and> fst (snd r) = ch \<and> workers W2 = workers W \<and> svcs W2 = svcs W \<and>
     fst (from_id X amqp (cid ch) parent W2) = Inl ChannelNotFound \<and>
     cid ch \<in> get_all W2 \<and>
     kv W2 = (kv W)((cid ch, ''properties'') := None) \<and>
     fst (from_id X amqp i parent W2) = fst (from_id X amqp i parent W)"
proof -
  let ?W2 = "snd (snd (delete_channel ch (snd (snd (save X ch W)))))"
  have k: "kv ?W2 = (kv W)((cid ch, ''properties'') := None)"
    by (simp add: save_result delete_channel_def)
  have s: "svcs ?W2 = svcs W" "workers ?W2 = workers W"
    by (simp_all add: save_result delete_channel_def)
  have g: "cid ch \<in> get_all ?W2"
    by (simp add: save_result delete_channel_def get_all_def)
  have n: "fst (from_id X amqp (cid ch) parent ?W2) = Inl ChannelNotFound"
    by (simp add: from_id_not_found_iff k)
  have o: "fst (from_id X amqp i parent ?W2) = fst (from_id X amqp i parent W)"
    using assms
    by (simp add: from_id_def restore_def getServiceNamed_def Let_def k s
        split: option.splits sum.splits prod.splits)
  show ?thesis using k s g n o by (simp add: Let_def delete_channel_def)
qed

theorem save_delete_witness:
  "''c2'' \<noteq> cid ex_channel \<and>
   fst (from_id ex_ext [] ''c1'' 0
     (snd (snd (delete_channel ex_channel (snd (snd (save ex_ext ex_channel running_world)))))))
     = Inl ChannelNotFound \<and>
   ''c1'' \<in> get_all
     (snd (snd (delete_channel ex_channel (snd (snd (save ex_ext ex_channel running_world))))))"
  using save_delete [of "''c2''" ex_channel ex_ext running_world "[]" 0]
  by (simp add: ex_channel_fields Let_def channel_init_def)

section \<open>Starting and stopping: the steps\<close>

lemma and_then_Inl [simp]: "and_then (Inl e, ch, W) f = (Inl e, ch, W)"
  by (simp add: and_then_def)

lemma and_then_Inr [simp]: "and_then (Inr x, ch, W) f = f x ch W"
  by (simp add: and_then_def)

lemma application_id_neq: "application_id ch \<noteq> cid ch" "cid ch \<noteq> application_id ch"
  "application_id ch \<noteq> []"
  by (auto simp add: application_id_def dest: arg_cong [where f = length])

lemma disown_attached:
  assumes "attached W s n w" "n \<noteq> []"
  shows "disownServiceParent w W = (Inr (), detached w s n W)"
  using assms
  by (simp add: attached_def disownServiceParent_def removeService_def upd_service_def
      upd_worker_def detached_def Let_def)

lemma attached_detached_other:
  assumes "attached W s n w" "w \<noteq> w'" "n \<noteq> n'"
  shows "attached (detached w' s' n' W) s n w"
  using assms by (auto simp add: attached_def detached_def)

lemma stop_running:
  assumes "transport_worker ch = Some tw" "application_worker ch = Some aw" "tw \<noteq> aw"
    "attached W s (cid ch) tw" "attached W s' (application_id ch) aw" "cid ch \<noteq> []"
  shows "stop ch W =
     (Inr (), ch\<lparr>application_worker := None, transport_worker := None\<rparr>,
      detached tw s (cid ch) (detached aw s' (application_id ch) W))"
proof -
  have a: "disownServiceParent aw W = (Inr (), detached aw s' (application_id ch) W)"
    using disown_attached [OF assms(5)] application_id_neq(3) by simp
  have "attached (detached aw s' (application_id ch) W) s (cid ch) tw"
    using attached_detached_other [OF assms(4) assms(3)] application_id_neq(2) by simp
  then have t: "disownServiceParent tw (detached aw s' (application_id ch) W)
      = (Inr (), detached tw s (cid ch) (detached aw s' (application_id ch) W))"
    using disown_attached assms(6) by simp
  show ?thesis
    using assms(1,2) a t
    by (simp add: stop_def stop_application_def stop_transport_def lift_world_def)
qed

lemma transport_fresh:
  assumes "transport_cls_name ch = Inr cls" "transport_config ch = Inr cfg"
    "namedServices (svcs W s) (cid ch) = None"
  shows "start_transport (Some s) None ch W =
     (Inr (), ch\<lparr>transport_worker := Some (length (workers W))\<rparr>,
      with_new_worker (cid ch) s cls cfg (options ch) W)"
  using assms
  by (simp add: start_transport_def create_transport_def create_worker_def setName_def
      setServiceParent_def addService_def upd_service_def upd_worker_def with_new_worker_def
      lift_world_def Let_def)

lemma application_fresh:
  assumes "application_config ch = Inr acfg"
    "namedServices (svcs W s) (application_id ch) = None"
  shows "start_application (Some s) ch W =
     (Inr (), ch\<lparr>application_worker := Some (length (workers W))\<rparr>,
      with_new_worker (application_id ch) s application_cls_name acfg (options ch) W)"
  using assms
  by (simp add: start_application_def create_application_def create_worker_def setName_def
      setServiceParent_def addService_def upd_service_def upd_worker_def with_new_worker_def
      lift_world_def Let_def)

lemma handle_update_simps:
  "application_config (transport_worker_update f ch) = application_config ch"
  "application_config (application_worker_update g ch) = application_config ch"
  "application_id (transport_worker_update f ch) = application_id ch"
  "application_id (application_worker_update g ch) = application_id ch"
  "transport_cls_name (transport_worker_update f ch) = transport_cls_name ch"
  "transport_cls_name (application_worker_update g ch) = transport_cls_name ch"
  "transport_config (transport_worker_update f ch) = transport_config ch"
  "transport_config (application_worker_update g ch) = transport_config ch"
  by (simp_all add: application_config_def application_id_def transport_cls_name_def
      transport_config_def cong: option.case_cong sum.case_cong jv.case_cong)

lemma start_fresh:
  assumes "transport_cls_name ch = Inr cls" "transport_config ch = Inr cfg"
    "application_config ch = Inr acfg"
    "namedServices (svcs W s) (cid ch) = None"
    "namedServices (svcs W s) (application_id ch) = None"
  shows "start (Some s) None ch W =
     (Inr (), ch\<lparr>transport_worker := Some (length (workers W)),
                 application_worker := Some (Suc (length (workers W)))\<rparr>,
      with_new_worker (application_id ch) s application_cls_name acfg (options ch)
        (with_new_worker (cid ch) s cls cfg (options ch) W))"
proof -
  let ?W1 = "with_new_worker (cid ch) s cls cfg (options ch) W"
  let ?ch1 = "ch\<lparr>transport_worker := Some (length (workers W))\<rparr>"
  have n: "namedServices (svcs ?W1 s) (application_id ?ch1) = None"
    using assms(5) application_id_neq(1) [of ch]
    by (simp add: with_new_worker_def handle_update_simps)
  have c: "application_config ?ch1 = Inr acfg"
    using assms(3) by (simp add: handle_update_simps)
  have l: "length (workers ?W1) = Suc (length (workers W))"
    by (simp add: with_new_worker_def)
  show ?thesis
    using transport_fresh [OF assms(1,2,4)] application_fresh [OF c n]
    by (simp add: start_def l handle_update_simps)
qed

lemma attached_named_detached:
  assumes "w < length (workers W)"
  shows "attached_named (detached w s n W) m = attached_named W m - {w}"
  using assms by (auto simp add: attached_named_def detached_def nth_list_update)

lemma attached_named_new:
  "attached_named (with_new_worker n s cls cfg opts W) m =
     attached_named W m \<union> (if m = n then {length (workers W)} else {})"
  by (auto simp add: attached_named_def with_new_worker_def nth_append less_Suc_eq)

lemma restart_running:
  assumes "transport_worker ch = Some tw" "application_worker ch = Some aw" "tw \<noteq> aw"
    "attached W s (cid ch) tw" "attached W s (application_id ch) aw" "cid ch \<noteq> []"
    "transport_cls_name ch = Inr cls" "transport_config ch = Inr cfg"
    "application_config ch = Inr acfg"
  shows "and_then (stop ch W) (\<lambda>_. start (Some s) None) =
     (Inr (), ch\<lparr>transport_worker := Some (length (workers W)),
                 application_worker := Some (Suc (length (workers W)))\<rparr>,
      with_new_worker (application_id ch) s application_cls_name acfg (options ch)
        (with_new_worker (cid ch) s cls cfg (options ch)
          (detached tw s (cid ch) (detached aw s (application_id ch) W))))"
proof -
  let ?W1 = "detached tw s (cid ch) (detached aw s (application_id ch) W)"
  let ?ch1 = "ch\<lparr>application_worker := None, transport_worker := None\<rparr>"
  have st: "stop ch W = (Inr (), ?ch1, ?W1)"
    using stop_running [OF assms(1-6)] .
  have n1: "namedServices (svcs ?W1 s) (cid ?ch1) = None"
    by (simp add: detached_def)
  have n2: "namedServices (svcs ?W1 s) (application_id ?ch1) = None"
    by (simp add: detached_def handle_update_simps)
  have l: "length (workers ?W1) = length (workers W)"
    by (simp add: detached_def)
  have c: "transport_cls_name ?ch1 = Inr cls" "transport_config ?ch1 = Inr cfg"
    "application_config ?ch1 = Inr acfg"
    using assms(7-9) by (simp_all add: handle_update_simps)
  show ?thesis
    using start_fresh [OF c n1 n2]
    by (simp add: st l handle_update_simps)
qed

lemma start_keeps_workers:
  "take (length (workers W)) (workers (snd (snd (start service None ch W)))) = workers W"
  by (simp add: start_def start_transport_def start_application_def create_transport_def
      create_application_def create_worker_def setName_def setServiceParent_def addService_def
      upd_service_def upd_worker_def lift_world_def and_then_def Let_def
      split: sum.split option.split)

lemma join_comma_lists: "x \<in> set xs \<Longrightarrow> sublist x (join_comma xs)"
proof (induction xs rule: join_comma.induct)
  case 1
  then show ?case by simp
next
  case (2 y)
  then show ?case by simp
next
  case (3 y z zs)
  show ?case
  proof (cases "x = y")
    case True
    then show ?thesis by simp
  next
    case False
    then have "sublist x (join_comma (z # zs))" using 3 by simp
    then obtain ps ss where "join_comma (z # zs) = ps @ x @ ss"
      by (auto simp add: sublist_def)
    then have "join_comma (y # z # zs) = (y @ '', '' @ ps) @ x @ ss" by simp
    then show ?thesis unfolding sublist_def by blast
  qed
qed

lemma registry_listed: "\<forall>k \<in> set (map fst transports). sublist k (join_comma (map fst transports))"
  using join_comma_lists by blast

lemma start_invalid:
  assumes "transports_get (jget (properties ch) ''type'') = Inr None"
  shows "start service None ch W =
     (Inl (InvalidChannelType (jget (properties ch) ''type'') (join_comma (map fst transports))), ch, W)"
  using assms
  by (simp add: start_def start_transport_def create_transport_def transport_cls_name_def)

lemma stop_none:
  assumes "transport_worker ch = None" "application_worker ch = None"
  shows "stop ch W = (Inr (), ch, W)"
  using assms by (simp add: stop_def stop_application_def stop_transport_def)

lemma stop_handles:
  assumes "stop ch W = (Inr u, ch', W')"
  shows "transport_worker ch' = None \<and> application_worker ch' = None"
  using assms
  by (auto simp add: stop_def stop_application_def stop_transport_def lift_world_def and_then_def
      split: option.splits sum.splits prod.splits)

lemma stop_twice: "and_then (stop ch W) (\<lambda>_. stop) = stop ch W"
proof (cases "stop ch W")
  case (fields r ch' W')
  show ?thesis
  proof (cases r)
    case (Inl e)
    then show ?thesis using fields by simp
  next
    case (Inr u)
    then show ?thesis using fields stop_handles [of ch W u ch' W'] stop_none [of ch' W']
      by simp
  qed
qed

lemma stop_application_first:
  assumes "application_worker ch = Some aw" "fst (disownServiceParent aw W) = Inl e"
  shows "stop ch W = (Inl e, ch, snd (disownServiceParent aw W))"
  using assms
  by (simp add: stop_def stop_application_def lift_world_def)

lemma update_not_running:
  assumes "jget p ''config'' \<noteq> JNone" "transport_worker ch = None"
  shows "update_channel X p ch W =
     (Inl AttributeError, ch\<lparr>properties := AList.merge (properties ch) p\<rparr>,
      W\<lparr>kv := (kv W)((cid ch, ''properties'') \<mapsto> json_dumps X (AList.merge (properties ch) p)),
        sets := (sets W)(''channels'' := insert (cid ch) (sets W ''channels''))\<rparr>)"
  using assms by (simp add: update_channel_def save_result)

lemma update_running:
  assumes "jget p ''config'' \<noteq> JNone" "transport_worker ch = Some tw"
  shows "update_channel X p ch W =
     (let ch1 = ch\<lparr>properties := AList.merge (properties ch) p\<rparr>;
          W1 = W\<lparr>kv := (kv W)((cid ch, ''properties'') \<mapsto> json_dumps X (AList.merge (properties ch) p)),
                 sets := (sets W)(''channels'' := insert (cid ch) (sets W ''channels''))\<rparr>
      in and_then (and_then (stop ch1 W1) (\<lambda>_. start (wparent (workers W ! tw)) None))
           (\<lambda>_ c V. (Inr (status c), c, V)))"
  using assms by (simp add: update_channel_def save_result Let_def)

lemma update_no_config:
  assumes "jget p ''config'' = JNone"
  shows "update_channel X p ch W =
     (Inr (status (ch\<lparr>properties := AList.merge (properties ch) p\<rparr>)),
      ch\<lparr>properties := AList.merge (properties ch) p\<rparr>,
      W\<lparr>kv := (kv W)((cid ch, ''properties'') \<mapsto> json_dumps X (AList.merge (properties ch) p)),
        sets := (sets W)(''channels'' := insert (cid ch) (sets W ''channels''))\<rparr>)"
  using assms by (simp add: update_channel_def save_result)

lemma attached_stored [simp]:
  "attached (W\<lparr>kv := k, sets := t\<rparr>) s n w = attached W s n w"
  by (simp add: attached_def)

lemma attached_new_self:
  "attached (with_new_worker n s cls cfg opts W) s n (length (workers W))"
  by (simp add: attached_def with_new_worker_def)

lemma attached_new_other:
  assumes "attached W s n w" "n \<noteq> n' \<or> s \<noteq> s'"
  shows "attached (with_new_worker n' s' cls cfg opts W) s n w"
  using assms by (auto simp add: attached_def with_new_worker_def nth_append)

lemma restart_result:
  assumes "attached W s n tw" "attached W s n' aw" "tw \<noteq> aw" "n \<noteq> n'"
  shows "attached (with_new_worker n' s c' g' o' (with_new_worker n s c g o1
            (detached tw s n (detached aw s n' W)))) s n (length (workers W))"
    and "attached (with_new_worker n' s c' g' o' (with_new_worker n s c g o1
            (detached tw s n (detached aw s n' W)))) s n' (Suc (length (workers W)))"
    and "wparent (workers (with_new_worker n' s c' g' o' (with_new_worker n s c g o1
            (detached tw s n (detached aw s n' W)))) ! tw) = None"
    and "wparent (workers (with_new_worker n' s c' g' o' (with_new_worker n s c g o1
            (detached tw s n (detached aw s n' W)))) ! aw) = None"
    and "kv (with_new_worker n' s c' g' o' (with_new_worker n s c g o1
            (detached tw s n (detached aw s n' W)))) = kv W"
    and "sets (with_new_worker n' s c' g' o' (with_new_worker n s c g o1
            (detached tw s n (detached aw s n' W)))) = sets W"
  using assms
  by (auto simp add: attached_def with_new_worker_def detached_def nth_append nth_list_update)

lemma restart_attached_named:
  assumes "tw < length (workers W)" "aw < length (workers W)" "n \<noteq> n'"
    "attached_named W n = {tw}" "attached_named W n' = {aw}"
  shows "attached_named (with_new_worker n' s c' g' o' (with_new_worker n s c g o1
            (detached tw s n (detached aw s n' W)))) n = {length (workers W)}"
    and "attached_named (with_new_worker n' s c' g' o' (with_new_worker n s c g o1
            (detached tw s n (detached aw s n' W)))) n' = {Suc (length (workers W))}"
proof -
  have l: "length (workers (detached aw s n' W)) = length (workers W)"
    "length (workers (detached tw s n (detached aw s n' W))) = length (workers W)"
    "length (workers (with_new_worker n s c g o1 (detached tw s n (detached aw s n' W))))
       = Suc (length (workers W))"
    by (simp_all add: detached_def with_new_worker_def)
  have t: "tw < length (workers (detached aw s n' W))" using assms(1) l by simp
  show "attached_named (with_new_worker n' s c' g' o' (with_new_worker n s c g o1
            (detached tw s n (detached aw s n' W)))) n = {length (workers W)}"
    using assms(3,4)
    by (auto simp add: attached_named_new attached_named_detached [OF t]
        attached_named_detached [OF assms(2)] l)
  show "attached_named (with_new_worker n' s c' g' o' (with_new_worker n s c g o1
            (detached tw s n (detached aw s n' W)))) n' = {Suc (length (workers W))}"
    using assms(3,5)
    by (auto simp add: attached_named_new attached_named_detached [OF t]
        attached_named_detached [OF assms(2)] l)
qed

lemma start_name_taken:
  assumes "transport_cls_name ch = Inr cls" "transport_config ch = Inr cfg"
    "namedServices (svcs W s) (cid ch) = Some tw"
  shows "start (Some s) None ch W =
     (Inl (RuntimeError (''cannot have two services with same name '' @ [CHR 0x27] @ cid ch @ [CHR 0x27])),
      ch,
      W\<lparr>workers := workers W @
          [\<lparr>wname = Some (cid ch), wparent = Some s, wcls = cls, wconfig = cfg,
            woptions = options ch\<rparr>]\<rparr>)"
  using assms
  by (simp add: start_def start_transport_def create_transport_def create_worker_def setName_def
      setServiceParent_def addService_def upd_service_def upd_worker_def lift_world_def Let_def)

lemma status_handles [simp]:
  "status (transport_worker_update f ch) = status ch"
  "status (application_worker_update g ch) = status ch"
  by (simp_all add: status_def)

section \<open>Starting a channel of unknown type\<close>

text \<open>
  Claim C5, as the code has it. When \<^verbatim>\<open>start\<close> is called without a transport worker of
  the caller's, and the channel's \<^verbatim>\<open>type\<close> is missing, \<^verbatim>\<open>None\<close>, a boolean, a number
  or a string that is not a key of \<^verbatim>\<open>transports\<close>, then \<^verbatim>\<open>start\<close> raises
  \<^verbatim>\<open>InvalidChannelType\<close>; the channel object and the world are unchanged, so no worker
  has been created or attached and both handles are as before; and every key of
  \<^verbatim>\<open>transports\<close> occurs in the list printed in the message.
\<close>

theorem start_invalid_type:
  assumes "case jget (properties ch) ''type'' of
             JStr s \<Rightarrow> map_of transports s = None
           | JList _ \<Rightarrow> False
           | JDict _ \<Rightarrow> False
           | _ \<Rightarrow> True"
  shows "start service None ch W =
       (Inl (InvalidChannelType (jget (properties ch) ''type'') (join_comma (map fst transports))),
        ch, W)
     \<and> (\<forall>k \<in> set (map fst transports). sublist k (join_comma (map fst transports)))"
proof -
  have "transports_get (jget (properties ch) ''type'') = Inr None"
    using assms by (simp add: transports_get_def split: jv.splits)
  then show ?thesis
    using start_invalid registry_listed by simp
qed

theorem start_invalid_type_witness:
  "map_of transports ''smpp'' = None \<and>
   start (Some 0) None bad_channel empty_world =
     (Inl (InvalidChannelType (JStr ''smpp'') (join_comma (map fst transports))),
      bad_channel, empty_world) \<and>
   sublist ''telnet'' (join_comma (map fst transports)) \<and>
   sublist ''xmpp'' (join_comma (map fst transports))"
  using start_invalid_type [of bad_channel "Some 0" empty_world]
  by (simp add: bad_channel_def channel_init_def jget_def transports_def)

text \<open>
  Claim C5 as stated fails: given a transport worker by the caller, \<^verbatim>\<open>start\<close> never
  looks the type up; it attaches that worker and a new application worker.
\<close>

theorem start_with_given_worker_counterexample:
  "map_of transports ''smpp'' = None \<and> jget (properties bad_channel) ''type'' = JStr ''smpp'' \<and>
   fst (start (Some 0) (Some 0) bad_channel spare_world) = Inr () \<and>
   fst (snd (start (Some 0) (Some 0) bad_channel spare_world))
     = bad_channel\<lparr>transport_worker := Some 0, application_worker := Some 1\<rparr> \<and>
   length (workers (snd (snd (start (Some 0) (Some 0) bad_channel spare_world)))) = 2"
  by (simp add: transports_def start_def start_transport_def start_application_def
      create_application_def application_config_def application_cls_name_def application_id_def
      lift_world_def create_worker_def setName_def setServiceParent_def addService_def
      upd_worker_def upd_service_def bad_channel_def channel_init_def spare_world_def
      empty_world_def ex_ext_def jget_def Let_def)

section \<open>Stopping twice\<close>

lemma running_attached:
  "attached running_world 0 ''c1'' 0" "attached running_world 0 ''application:c1'' (Suc 0)"
  by (simp_all add: attached_def running_world_def)

lemma running_channel_fields:
  "transport_worker running_channel = Some 0" "application_worker running_channel = Some (Suc 0)"
  "cid running_channel = ''c1''" "application_id running_channel = ''application:c1''"
  "properties running_channel = ex_props" "options running_channel = []"
  by (simp_all add: running_channel_def ex_channel_fields application_id_def)

lemma stop_running_example:
  "stop running_channel running_world =
     (Inr (), running_channel\<lparr>application_worker := None, transport_worker := None\<rparr>,
      detached 0 0 ''c1'' (detached (Suc 0) 0 ''application:c1'' running_world))"
  using stop_running [of running_channel 0 "Suc 0" running_world 0 0]
  by (simp add: running_channel_fields running_attached)

text \<open>
  Claim C8. \<^verbatim>\<open>stop\<close> followed by \<^verbatim>\<open>stop\<close> is \<^verbatim>\<open>stop\<close>. When \<^verbatim>\<open>stop\<close> returns, both
  handles are \<^verbatim>\<open>None\<close> and a second \<^verbatim>\<open>stop\<close> returns without changing the channel or
  the world; with both handles \<^verbatim>\<open>None\<close> it does nothing. The application worker is
  detached first: if its detach raises, \<^verbatim>\<open>stop\<close> ends there and the transport worker has
  not been touched; with both workers attached, the world after \<^verbatim>\<open>stop\<close> is the one after
  detaching the application worker and then the transport worker. A handle that is
  \<^verbatim>\<open>None\<close> is skipped: without an application worker \<^verbatim>\<open>stop\<close> is the detach of the
  transport worker alone, without a transport worker it is the detach of the application
  worker alone.
\<close>

theorem stop_idempotent:
  "and_then (stop ch W) (\<lambda>_. stop) = stop ch W
   \<and> (\<forall>ch' W'. stop ch W = (Inr (), ch', W') \<longrightarrow>
        transport_worker ch' = None \<and> application_worker ch' = None \<and>
        stop ch' W' = (Inr (), ch', W'))
   \<and> (transport_worker ch = None \<and> application_worker ch = None \<longrightarrow> stop ch W = (Inr (), ch, W))
   \<and> (\<forall>aw e. application_worker ch = Some aw \<and> fst (disownServiceParent aw W) = Inl e \<longrightarrow>
        stop ch W = (Inl e, ch, snd (disownServiceParent aw W)))
   \<and> (\<forall>tw aw s s'. transport_worker ch = Some tw \<and> application_worker ch = Some aw \<and> tw \<noteq> aw \<and>
        attached W s (cid ch) tw \<and> attached W s' (application_id ch) aw \<and> cid ch \<noteq> [] \<longrightarrow>
        stop ch W = (Inr (), ch\<lparr>application_worker := None, transport_worker := None\<rparr>,
                     detached tw s (cid ch) (detached aw s' (application_id ch) W)))
   \<and> (application_worker ch = None \<longrightarrow> stop ch W = stop_transport ch W)
   \<and> (transport_worker ch = None \<longrightarrow> stop ch W = stop_application ch W)"
proof -
  have a: "and_then (stop ch W) (\<lambda>_. stop) = stop ch W"
    by (rule stop_twice)
  have b: "\<forall>ch' W'. stop ch W = (Inr (), ch', W') \<longrightarrow>
        transport_worker ch' = None \<and> application_worker ch' = None \<and>
        stop ch' W' = (Inr (), ch', W')"
  proof (intro allI impI)
    fix ch' W'
    assume s: "stop ch W = (Inr (), ch', W')"
    have h: "transport_worker ch' = None \<and> application_worker ch' = None"
      using stop_handles [OF s] .
    then have "stop ch' W' = (Inr (), ch', W')"
      using stop_none [of ch' W'] by simp
    with h show "transport_worker ch' = None \<and> application_worker ch' = None \<and>
        stop ch' W' = (Inr (), ch', W')" by simp
  qed
  have c: "transport_worker ch = None \<and> application_worker ch = None \<longrightarrow> stop ch W = (Inr (), ch, W)"
    using stop_none [of ch W] by simp
  have d: "\<forall>aw e. application_worker ch = Some aw \<and> fst (disownServiceParent aw W) = Inl e \<longrightarrow>
        stop ch W = (Inl e, ch, snd (disownServiceParent aw W))"
  proof (intro allI impI)
    fix aw e
    assume "application_worker ch = Some aw \<and> fst (disownServiceParent aw W) = Inl e"
    then show "stop ch W = (Inl e, ch, snd (disownServiceParent aw W))"
      using stop_application_first [of ch aw W e] by simp
  qed
  have e: "\<forall>tw aw s s'. transport_worker ch = Some tw \<and> application_worker ch = Some aw \<and> tw \<noteq> aw \<and>
        attached W s (cid ch) tw \<and> attached W s' (application_id ch) aw \<and> cid ch \<noteq> [] \<longrightarrow>
        stop ch W = (Inr (), ch\<lparr>application_worker := None, transport_worker := None\<rparr>,
                     detached tw s (cid ch) (detached aw s' (application_id ch) W))"
  proof (intro allI impI)
    fix tw aw s s'
    assume h: "transport_worker ch = Some tw \<and> application_worker ch = Some aw \<and> tw \<noteq> aw \<and>
        attached W s (cid ch) tw \<and> attached W s' (application_id ch) aw \<and> cid ch \<noteq> []"
    show "stop ch W = (Inr (), ch\<lparr>application_worker := None, transport_worker := None\<rparr>,
                     detached tw s (cid ch) (detached aw s' (application_id ch) W))"
      by (rule stop_running) (use h in simp_all)
  qed
  have f: "application_worker ch = None \<longrightarrow> stop ch W = stop_transport ch W"
    by (simp add: stop_def stop_application_def)
  have g: "transport_worker ch = None \<longrightarrow> stop ch W = stop_application ch W"
  proof
    assume n: "transport_worker ch = None"
    show "stop ch W = stop_application ch W"
    proof (cases "application_worker ch")
      case None
      then show ?thesis using n by (simp add: stop_def stop_application_def stop_transport_def)
    next
      case (Some w)
      then show ?thesis using n
        by (cases "disownServiceParent w W")
          (auto simp add: stop_def stop_application_def stop_transport_def lift_world_def
            and_then_def split: sum.splits)
    qed
  qed
  show ?thesis
    by (rule conjI [OF a conjI [OF b conjI [OF c conjI [OF d conjI [OF e conjI [OF f g]]]]]])
qed

theorem stop_idempotent_witness:
  "stop running_channel running_world =
     (Inr (), running_channel\<lparr>application_worker := None, transport_worker := None\<rparr>,
      detached 0 0 ''c1'' (detached (Suc 0) 0 ''application:c1'' running_world)) \<and>
   stop (running_channel\<lparr>application_worker := None, transport_worker := None\<rparr>)
        (detached 0 0 ''c1'' (detached (Suc 0) 0 ''application:c1'' running_world)) =
     (Inr (), running_channel\<lparr>application_worker := None, transport_worker := None\<rparr>,
      detached 0 0 ''c1'' (detached (Suc 0) 0 ''application:c1'' running_world)) \<and>
   stop ex_channel empty_world = (Inr (), ex_channel, empty_world) \<and>
   stop (running_channel\<lparr>application_worker := None\<rparr>) running_world =
     stop_transport (running_channel\<lparr>application_worker := None\<rparr>) running_world \<and>
   stop (running_channel\<lparr>transport_worker := None\<rparr>) running_world =
     stop_application (running_channel\<lparr>transport_worker := None\<rparr>) running_world"
proof -
  note s1 = stop_running_example
  have s2: "stop (running_channel\<lparr>application_worker := None, transport_worker := None\<rparr>)
        (detached 0 0 ''c1'' (detached (Suc 0) 0 ''application:c1'' running_world)) =
     (Inr (), running_channel\<lparr>application_worker := None, transport_worker := None\<rparr>,
      detached 0 0 ''c1'' (detached (Suc 0) 0 ''application:c1'' running_world))"
    by (rule stop_idempotent [of running_channel running_world, THEN conjunct2, THEN conjunct1,
          THEN spec, THEN spec, THEN mp, OF s1, THEN conjunct2, THEN conjunct2])
  have n: "transport_worker ex_channel = None \<and> application_worker ex_channel = None"
    by (simp add: ex_channel_fields)
  have s3: "stop ex_channel empty_world = (Inr (), ex_channel, empty_world)"
    by (rule stop_idempotent [of ex_channel empty_world, THEN conjunct2, THEN conjunct2,
          THEN conjunct1, THEN mp, OF n])
  have na: "application_worker (running_channel\<lparr>application_worker := None\<rparr>) = None"
    by simp
  have s4: "stop (running_channel\<lparr>application_worker := None\<rparr>) running_world =
     stop_transport (running_channel\<lparr>application_worker := None\<rparr>) running_world"
    by (rule stop_idempotent [of "running_channel\<lparr>application_worker := None\<rparr>" running_world,
          THEN conjunct2, THEN conjunct2, THEN conjunct2, THEN conjunct2, THEN conjunct2,
          THEN conjunct1, THEN mp, OF na])
  have nt: "transport_worker (running_channel\<lparr>transport_worker := None\<rparr>) = None"
    by simp
  have s5: "stop (running_channel\<lparr>transport_worker := None\<rparr>) running_world =
     stop_application (running_channel\<lparr>transport_worker := None\<rparr>) running_world"
    by (rule stop_idempotent [of "running_channel\<lparr>transport_worker := None\<rparr>" running_world,
          THEN conjunct2, THEN conjunct2, THEN conjunct2, THEN conjunct2, THEN conjunct2,
          THEN conjunct2, THEN mp, OF nt])
  show ?thesis
    by (intro conjI) (rule s1, rule s2, rule s3, rule s4, rule s5)
qed

section \<open>Updating a channel\<close>

text \<open>
  Claim C10, as the code has it. Let \<^verbatim>\<open>update\<close> be called with properties whose
  \<^verbatim>\<open>config\<close> entry is not \<^verbatim>\<open>None\<close>. The merged properties are saved first. If the
  \<^verbatim>\<open>transport_worker\<close> handle is \<^verbatim>\<open>None\<close>, reading its parent raises
  \<^verbatim>\<open>AttributeError\<close>, and the call ends with the merged properties in the channel object
  and in the store: nothing is rolled back. If the handle refers to a worker, the parent is
  read and \<^verbatim>\<open>update\<close> goes on to \<^verbatim>\<open>stop\<close> and \<^verbatim>\<open>start\<close>.
\<close>

theorem update_config_needs_transport:
  assumes "jget p ''config'' \<noteq> JNone"
  shows "let ch1 = ch\<lparr>properties := AList.merge (properties ch) p\<rparr>;
             W1 = snd (snd (save X ch1 W))
         in kv W1 (cid ch, ''properties'') = Some (json_dumps X (AList.merge (properties ch) p)) \<and>
            (transport_worker ch = None \<longrightarrow>
               update_channel X p ch W = (Inl AttributeError, ch1, W1)) \<and>
            (\<forall>tw. transport_worker ch = Some tw \<longrightarrow>
               update_channel X p ch W =
                 and_then (and_then (stop ch1 W1) (\<lambda>_. start (wparent (workers W ! tw)) None))
                   (\<lambda>_ c V. (Inr (status c), c, V)))"
  using assms update_not_running [of p ch X W] update_running [of p ch _ X W]
  by (simp add: Let_def save_result)

theorem update_config_needs_transport_witness:
  "jget [(''config'', JDict [])] ''config'' \<noteq> JNone \<and> transport_worker ex_channel = None \<and>
   fst (update_channel ex_ext [(''config'', JDict [])] ex_channel empty_world) = Inl AttributeError \<and>
   kv (snd (snd (update_channel ex_ext [(''config'', JDict [])] ex_channel empty_world)))
      (''c1'', ''properties'')
     = Some (json_dumps ex_ext (AList.merge ex_props [(''config'', JDict [])])) \<and>
   transport_worker running_channel = Some 0 \<and>
   update_channel ex_ext [(''config'', JDict [])] running_channel running_world =
     and_then
       (and_then
          (stop (running_channel\<lparr>properties := AList.merge ex_props [(''config'', JDict [])]\<rparr>)
             (snd (snd (save ex_ext
                (running_channel\<lparr>properties := AList.merge ex_props [(''config'', JDict [])]\<rparr>)
                running_world))))
          (\<lambda>_. start (Some 0) None))
       (\<lambda>_ c V. (Inr (status c), c, V))"
proof -
  have c: "jget [(''config'', JDict [])] ''config'' \<noteq> JNone"
    by (simp add: jget_def)
  have w: "wparent (workers running_world ! 0) = Some 0"
    by (simp add: running_world_def)
  show ?thesis
    using update_config_needs_transport [OF c, of ex_channel ex_ext empty_world]
      update_config_needs_transport [OF c, of running_channel ex_ext running_world]
    by (simp add: Let_def c w ex_channel_fields running_channel_fields)
qed

text \<open>
  Claim C10 as stated fails: with the entry \<^verbatim>\<open>config: None\<close> the properties have a
  \<^verbatim>\<open>config\<close> key and the handle is \<^verbatim>\<open>None\<close>, yet \<^verbatim>\<open>update\<close> returns the status.
\<close>

theorem update_config_none_counterexample:
  "map_of [(''config'', JNone)] ''config'' = Some JNone \<and> transport_worker ex_channel = None \<and>
   fst (update_channel ex_ext [(''config'', JNone)] ex_channel empty_world) =
     Inr [(''type'', JStr ''telnet''), (''config'', JNone), (''mo_url'', JStr ''http://x''),
          (''id'', JStr ''c1''), (''status'', JDict [])]"
  using update_no_config [of "[(''config'', JNone)]" ex_ext ex_channel empty_world]
  by (simp add: jget_def ex_channel_fields status_def ex_props_def)

section \<open>Starting a running channel, and restarting\<close>

text \<open>
  Claim C3, as the code has it. Let the channel be running: its two handles refer to
  different workers, attached to the parent \<open>s\<close> under the names \<^verbatim>\<open>id\<close> and
  \<^verbatim>\<open>application:id\<close>, the id is not empty, and the properties give a transport class and
  both configurations. \<^verbatim>\<open>start\<close> under \<open>s\<close> does not stop the channel first: it makes a new
  transport worker, fails to attach it because the name is taken, and raises
  \<^verbatim>\<open>RuntimeError\<close>; the handles, the parent's children and every worker that existed are
  as before. \<^verbatim>\<open>stop\<close> followed by \<^verbatim>\<open>start\<close> under \<open>s\<close> returns: the two previous workers
  have no parent any more, two new workers are attached to \<open>s\<close> under the two names and
  the handles refer to them; and if the previous workers were the only ones with a parent
  under their names, then so are the new ones.
\<close>

theorem restart_replaces_workers:
  assumes "transport_worker ch = Some tw" and "application_worker ch = Some aw" and "tw \<noteq> aw"
    and "attached W s (cid ch) tw" and "attached W s (application_id ch) aw" and "cid ch \<noteq> []"
    and "transport_cls_name ch = Inr cls" and "transport_config ch = Inr cfg"
    and "application_config ch = Inr acfg"
  shows "start (Some s) None ch W =
       (Inl (RuntimeError (''cannot have two services with same name '' @ [CHR 0x27] @ cid ch @ [CHR 0x27])),
        ch,
        W\<lparr>workers := workers W @
            [\<lparr>wname = Some (cid ch), wparent = Some s, wcls = cls, wconfig = cfg,
              woptions = options ch\<rparr>]\<rparr>)
     \<and> (\<exists>W2. and_then (stop ch W) (\<lambda>_. start (Some s) None) =
            (Inr (), ch\<lparr>transport_worker := Some (length (workers W)),
                        application_worker := Some (Suc (length (workers W)))\<rparr>, W2) \<and>
          wparent (workers W2 ! tw) = None \<and> wparent (workers W2 ! aw) = None \<and>
          attached W2 s (cid ch) (length (workers W)) \<and>
          attached W2 s (application_id ch) (Suc (length (workers W))) \<and>
          (attached_named W (cid ch) = {tw} \<and> attached_named W (application_id ch) = {aw} \<longrightarrow>
             attached_named W2 (cid ch) = {length (workers W)} \<and>
             attached_named W2 (application_id ch) = {Suc (length (workers W))}))"
proof -
  let ?W2 = "with_new_worker (application_id ch) s application_cls_name acfg (options ch)
        (with_new_worker (cid ch) s cls cfg (options ch)
          (detached tw s (cid ch) (detached aw s (application_id ch) W)))"
  have nt: "namedServices (svcs W s) (cid ch) = Some tw"
    using assms(4) by (simp add: attached_def)
  have lt: "tw < length (workers W)" "aw < length (workers W)"
    using assms(4,5) by (simp_all add: attached_def)
  note ne = application_id_neq(2) [of ch]
  have a: "start (Some s) None ch W =
       (Inl (RuntimeError (''cannot have two services with same name '' @ [CHR 0x27] @ cid ch @ [CHR 0x27])),
        ch,
        W\<lparr>workers := workers W @
            [\<lparr>wname = Some (cid ch), wparent = Some s, wcls = cls, wconfig = cfg,
              woptions = options ch\<rparr>]\<rparr>)"
    by (rule start_name_taken [OF assms(7,8) nt])
  have r: "and_then (stop ch W) (\<lambda>_. start (Some s) None) =
            (Inr (), ch\<lparr>transport_worker := Some (length (workers W)),
                        application_worker := Some (Suc (length (workers W)))\<rparr>, ?W2)"
    by (rule restart_running [OF assms])
  have u: "attached_named W (cid ch) = {tw} \<and> attached_named W (application_id ch) = {aw} \<longrightarrow>
             attached_named ?W2 (cid ch) = {length (workers W)} \<and>
             attached_named ?W2 (application_id ch) = {Suc (length (workers W))}"
  proof (intro impI, elim conjE)
    assume p: "attached_named W (cid ch) = {tw}" and q: "attached_named W (application_id ch) = {aw}"
    have "attached_named ?W2 (cid ch) = {length (workers W)}"
      by (rule restart_attached_named(1) [OF lt ne p q])
    moreover have "attached_named ?W2 (application_id ch) = {Suc (length (workers W))}"
      by (rule restart_attached_named(2) [OF lt ne p q])
    ultimately show "attached_named ?W2 (cid ch) = {length (workers W)} \<and>
             attached_named ?W2 (application_id ch) = {Suc (length (workers W))}"
      by (rule conjI)
  qed
  have p1: "wparent (workers ?W2 ! tw) = None"
    by (rule restart_result(3) [OF assms(4,5,3) ne])
  have p2: "wparent (workers ?W2 ! aw) = None"
    by (rule restart_result(4) [OF assms(4,5,3) ne])
  have p3: "attached ?W2 s (cid ch) (length (workers W))"
    by (rule restart_result(1) [OF assms(4,5,3) ne])
  have p4: "attached ?W2 s (application_id ch) (Suc (length (workers W)))"
    by (rule restart_result(2) [OF assms(4,5,3) ne])
  show ?thesis
    by (rule conjI [OF a], rule exI, intro conjI) (rule r, rule p1, rule p2, rule p3, rule p4, rule u)
qed


lemma running_configs:
  "transport_cls_name running_channel = Inr ''vumi.transports.telnet.TelnetServerTransport''"
  "transport_config running_channel =
     Inr (JDict [(''port'', JInt 9000), (''transport_name'', JStr ''c1'')])"
  "application_config running_channel =
     Inr (JDict [(''transport_name'', JStr ''c1''), (''mo_message_url'', JStr ''http://x'')])"
  by (simp_all add: transport_cls_name_def transports_get_def transport_config_def
      application_config_def jget_def running_channel_fields ex_props_def transports_def
      py_str_def)

lemma running_named:
  "attached_named running_world ''c1'' = {0}"
  "attached_named running_world ''application:c1'' = {Suc 0}"
  "length (workers running_world) = Suc (Suc 0)"
  "namedServices (svcs running_world (Suc 0)) ''c1'' = None"
  "namedServices (svcs running_world (Suc 0)) ''application:c1'' = None"
  by (auto simp add: attached_named_def running_world_def upt_rec less_Suc_eq)

theorem restart_replaces_workers_witness:
  "attached running_world 0 ''c1'' 0 \<and> attached running_world 0 ''application:c1'' (Suc 0) \<and>
   fst (start (Some 0) None running_channel running_world) =
     Inl (RuntimeError (''cannot have two services with same name '' @ [CHR 0x27] @ ''c1'' @ [CHR 0x27])) \<and>
   (\<exists>W2. and_then (stop running_channel running_world) (\<lambda>_. start (Some 0) None) =
      (Inr (), running_channel\<lparr>transport_worker := Some (Suc (Suc 0)),
                               application_worker := Some (Suc (Suc (Suc 0)))\<rparr>, W2) \<and>
      attached_named W2 ''c1'' = {Suc (Suc 0)} \<and>
      attached_named W2 ''application:c1'' = {Suc (Suc (Suc 0))})"
proof -
  have t: "transport_worker running_channel = Some 0"
    and a: "application_worker running_channel = Some (Suc 0)"
    and i: "cid running_channel \<noteq> []"
    by (simp_all add: running_channel_fields)
  have at: "attached running_world 0 (cid running_channel) 0"
    and aa: "attached running_world 0 (application_id running_channel) (Suc 0)"
    by (simp_all add: running_channel_fields running_attached)
  have d: "(0::nat) \<noteq> Suc 0" by simp
  note th = restart_replaces_workers [OF t a d at aa i running_configs]
  have s: "fst (start (Some 0) None running_channel running_world) =
     Inl (RuntimeError (''cannot have two services with same name '' @ [CHR 0x27] @ ''c1'' @ [CHR 0x27]))"
    using th [THEN conjunct1] by (simp add: running_channel_fields)
  from th [THEN conjunct2] obtain W2 where
    r: "and_then (stop running_channel running_world) (\<lambda>_. start (Some 0) None) =
      (Inr (), running_channel\<lparr>transport_worker := Some (length (workers running_world)),
         application_worker := Some (Suc (length (workers running_world)))\<rparr>, W2)"
    and u: "attached_named running_world (cid running_channel) = {0} \<and>
         attached_named running_world (application_id running_channel) = {Suc 0} \<longrightarrow>
         attached_named W2 (cid running_channel) = {length (workers running_world)} \<and>
         attached_named W2 (application_id running_channel) = {Suc (length (workers running_world))}"
    by (elim exE conjE)
  have u': "attached_named W2 ''c1'' = {Suc (Suc 0)} \<and>
      attached_named W2 ''application:c1'' = {Suc (Suc (Suc 0))}"
    using u by (simp add: running_channel_fields running_named)
  have r': "and_then (stop running_channel running_world) (\<lambda>_. start (Some 0) None) =
      (Inr (), running_channel\<lparr>transport_worker := Some (Suc (Suc 0)),
                               application_worker := Some (Suc (Suc (Suc 0)))\<rparr>, W2)"
    using r by (simp add: running_named)
  have e: "\<exists>W2. and_then (stop running_channel running_world) (\<lambda>_. start (Some 0) None) =
      (Inr (), running_channel\<lparr>transport_worker := Some (Suc (Suc 0)),
                               application_worker := Some (Suc (Suc (Suc 0)))\<rparr>, W2) \<and>
      attached_named W2 ''c1'' = {Suc (Suc 0)} \<and>
      attached_named W2 ''application:c1'' = {Suc (Suc (Suc 0))}"
    by (rule exI, rule conjI, rule r', rule u')
  show ?thesis
    by (intro conjI) (rule running_attached(1), rule running_attached(2), rule s, rule e)
qed

text \<open>
  Claim C3 as stated fails. Started again under its own parent, the running channel
  \<^verbatim>\<open>c1\<close> raises \<^verbatim>\<open>RuntimeError\<close>. Started again under another parent, \<^verbatim>\<open>start\<close>
  returns, the first transport worker is still attached to the first parent, and two
  workers named \<^verbatim>\<open>c1\<close> have a parent.
\<close>

theorem start_running_counterexample:
  "fst (start (Some 0) None running_channel running_world) =
     Inl (RuntimeError (''cannot have two services with same name '' @ [CHR 0x27] @ ''c1'' @ [CHR 0x27])) \<and>
   fst (start (Some (Suc 0)) None running_channel running_world) = Inr () \<and>
   attached (snd (snd (start (Some (Suc 0)) None running_channel running_world))) 0 ''c1'' 0 \<and>
   attached_named (snd (snd (start (Some (Suc 0)) None running_channel running_world))) ''c1''
     = {0, Suc (Suc 0)}"
proof -
  have n: "namedServices (svcs running_world 0) (cid running_channel) = Some 0"
    by (simp add: running_world_def running_channel_fields)
  have a: "fst (start (Some 0) None running_channel running_world) =
     Inl (RuntimeError (''cannot have two services with same name '' @ [CHR 0x27] @ ''c1'' @ [CHR 0x27]))"
    using start_name_taken [OF running_configs(1,2) n] by (simp add: running_channel_fields)
  have f: "namedServices (svcs running_world (Suc 0)) (cid running_channel) = None"
    "namedServices (svcs running_world (Suc 0)) (application_id running_channel) = None"
    by (simp_all add: running_named running_channel_fields)
  note sf = start_fresh [OF running_configs f]
  have b: "fst (start (Some (Suc 0)) None running_channel running_world) = Inr ()"
    using sf by simp
  have w: "snd (snd (start (Some (Suc 0)) None running_channel running_world)) =
      with_new_worker ''application:c1'' (Suc 0) application_cls_name
        (JDict [(''transport_name'', JStr ''c1''), (''mo_message_url'', JStr ''http://x'')]) []
        (with_new_worker ''c1'' (Suc 0) ''vumi.transports.telnet.TelnetServerTransport''
          (JDict [(''port'', JInt 9000), (''transport_name'', JStr ''c1'')]) [] running_world)"
    using sf by (simp add: running_channel_fields)
  have c: "attached (snd (snd (start (Some (Suc 0)) None running_channel running_world))) 0 ''c1'' 0"
    unfolding w
    by (rule attached_new_other, rule attached_new_other, rule running_attached(1)) simp_all
  have d: "attached_named (snd (snd (start (Some (Suc 0)) None running_channel running_world))) ''c1''
     = {0, Suc (Suc 0)}"
    unfolding w by (simp add: attached_named_new running_named insert_commute)
  show ?thesis
    by (intro conjI) (rule a, rule b, rule c, rule d)
qed

section \<open>What update does\<close>

lemma properties_update_simps [simp]:
  "application_id (properties_update f ch) = application_id ch"
  by (simp add: application_id_def)






end
